theory Spec2Isabelle
  imports Complex_Main
begin

section \<open>Numbers\<close>

text \<open>
  The program computes with C \<^verbatim>\<open>double\<close>s. Two models of its arithmetic are used.

  In the first one the doubles are idealised as real numbers: arithmetic is exact,
  there is no rounding and no overflow. It carries what rounding does not decide:
  the ray loop, the ray density, the search of the resolver as a function of what
  the intersection test reports, and the geometry the program aims at.

  The second one (section \<open>Double arithmetic\<close>) rounds the result of every operation
  to binary64; its functions carry the suffix \<open>64\<close>. It carries what rounding does
  decide: whether the intersection test reports a hit, and hence which point the
  resolver returns.

  In both, the one place where IEEE-754 special values decide what the program
  does is a division whose divisor can be zero; such a quotient is an \<open>ieee\<close> value.
  A division by zero does not trap: it yields an infinity or a NaN (the sign of a
  zero divisor is not tracked, no comparison below depends on it).
\<close>

datatype ieee = Finite real | PosInf | NegInf | NaN

definition fdiv :: "real \<Rightarrow> real \<Rightarrow> ieee" where
  "fdiv a b =
     (if b \<noteq> 0 then Finite (a / b)
      else if 0 < a then PosInf
      else if a < 0 then NegInf
      else NaN)"

text \<open>The C cast \<^verbatim>\<open>(int) d\<close> truncates towards zero.\<close>

definition int_of_double :: "real \<Rightarrow> int" where
  "int_of_double d = (if 0 \<le> d then \<lfloor>d\<rfloor> else \<lceil>d\<rceil>)"

section \<open>Data model\<close>

text \<open>
  \<^verbatim>\<open>typedef struct { double x, y; } Point;\<close> and
  \<^verbatim>\<open>typedef struct { Point point1, point2; } Line;\<close>.
  The fields \<^verbatim>\<open>x\<close> and \<^verbatim>\<open>y\<close> are the selectors \<open>px\<close> and \<open>py\<close>.
\<close>

datatype Point = Point (px: real) (py: real)

datatype Line = Line (point1: Point) (point2: Point)

definition MONITOR_SIZE_X :: real where
  "MONITOR_SIZE_X = 1920"

definition MONITOR_SIZE_Y :: real where
  "MONITOR_SIZE_Y = 1080"

definition monitor_widescreen_compensation :: real where
  "monitor_widescreen_compensation = MONITOR_SIZE_X / MONITOR_SIZE_Y"

text \<open>\<^verbatim>\<open>#define PI 3.14159265359\<close>: the program's constant, a decimal fraction.\<close>

definition PI :: real where
  "PI = 314159265359 / 100000000000"

definition CIRCLE_RADIUS :: real where
  "CIRCLE_RADIUS = 5 / 100"

definition walls :: "Line list" where
  "walls =
    [Line (Point (65/100) (5/10)) (Point (7/10) (8/10)),
     Line (Point (2/10) (3/10)) (Point (4/10) (-2/10)),
     Line (Point (4/10) (-2/10)) (Point (5/100) (-3/10)),
     Line (Point (5/100) (-3/10)) (Point (-2/10) (-1/10)),
     Line (Point (-2/10) (-1/10)) (Point (-1/10) (2/10)),
     Line (Point (-1/10) (2/10)) (Point (2/10) (3/10)),
     Line (Point (-5/10) (5/10)) (Point (-3/10) (3/10)),
     Line (Point (-3/10) (5/10)) (Point (-5/10) (3/10)),
     Line (Point (-5/10) (-5/10)) (Point (-2/10) (-5/10))]"

text \<open>The static array \<^verbatim>\<open>borders\<close> of \<^verbatim>\<open>findNearestIntersectionPoint\<close>:
  north, east, south, west.\<close>

definition borders :: "Line list" where
  "borders =
    [Line (Point (-11/10) (11/10)) (Point (11/10) (11/10)),
     Line (Point (11/10) (11/10)) (Point (11/10) (-11/10)),
     Line (Point (-11/10) (-11/10)) (Point (11/10) (-11/10)),
     Line (Point (-11/10) (11/10)) (Point (-11/10) (-11/10))]"

section \<open>Coordinate normalisation\<close>

definition normalizeMonitorCoordinates :: "real \<Rightarrow> real \<Rightarrow> Point" where
  "normalizeMonitorCoordinates xpos ypos =
     (let nx = (xpos - MONITOR_SIZE_X / 2) / (MONITOR_SIZE_X / 2);
          ny = (ypos - MONITOR_SIZE_Y / 2) / (MONITOR_SIZE_Y / 2);
          nx = (if nx > 1 then 1 else if nx < -1 then -1 else nx);
          ny = (if ny > 1 then 1 else if ny < -1 then -1 else ny)
      in Point nx (ny * (-1)))"

section \<open>Geometry kernel\<close>

definition pointDistance :: "Point \<Rightarrow> Point \<Rightarrow> real" where
  "pointDistance p1 p2 = sqrt ((px p2 - px p1)\<^sup>2 + (py p2 - py p1)\<^sup>2)"

text \<open>The common divisor of the two quotients of \<^verbatim>\<open>findLineSegmentIntersection\<close>.\<close>

definition denominator :: "Line \<Rightarrow> Line \<Rightarrow> real" where
  "denominator l1 l2 =
     (px (point1 l1) - px (point2 l1)) * (py (point1 l2) - py (point2 l2))
     - (py (point1 l1) - py (point2 l1)) * (px (point1 l2) - px (point2 l2))"

text \<open>The locals \<^verbatim>\<open>t\<close> and \<^verbatim>\<open>u\<close>: the divisor is zero for parallel segments.\<close>

definition param_t :: "Line \<Rightarrow> Line \<Rightarrow> ieee" where
  "param_t l1 l2 =
     fdiv ((px (point1 l1) - px (point1 l2)) * (py (point1 l2) - py (point2 l2))
           - (py (point1 l1) - py (point1 l2)) * (px (point1 l2) - px (point2 l2)))
          (denominator l1 l2)"

definition param_u :: "Line \<Rightarrow> Line \<Rightarrow> ieee" where
  "param_u l1 l2 =
     fdiv (- ((px (point1 l1) - px (point2 l1)) * (py (point1 l1) - py (point1 l2))
              - (py (point1 l1) - py (point2 l1)) * (px (point1 l1) - px (point1 l2))))
          (denominator l1 l2)"

text \<open>
  The result \<open>Some p\<close> is the return value 1 with \<open>p\<close> stored through the pointer
  \<^verbatim>\<open>intersection\<close>; \<open>None\<close> is the return value 0, the pointer's target untouched.
  The test \<^verbatim>\<open>0.0 <= t && t <= 1.0 && 0.0 <= u && u <= 1.0\<close> is false as soon as
  \<^verbatim>\<open>t\<close> or \<^verbatim>\<open>u\<close> is an infinity or a NaN.
\<close>

definition findLineSegmentIntersection :: "Line \<Rightarrow> Line \<Rightarrow> Point option" where
  "findLineSegmentIntersection l1 l2 =
     (let x1 = px (point1 l1); y1 = py (point1 l1);
          x2 = px (point2 l1); y2 = py (point2 l1)
      in case param_t l1 l2 of
           Finite t \<Rightarrow>
             (case param_u l1 l2 of
                Finite u \<Rightarrow>
                  if 0 \<le> t \<and> t \<le> 1 \<and> 0 \<le> u \<and> u \<le> 1
                  then Some (Point (x1 + t * (x2 - x1)) (y1 + t * (y2 - y1)))
                  else None
              | _ \<Rightarrow> None)
         | _ \<Rightarrow> None)"

section \<open>Ray extension\<close>

text \<open>\<^verbatim>\<open>INT16_MAX\<close>, as a double.\<close>

definition ARBITRARY_OUT_OF_BOUNDS_COORD :: real where
  "ARBITRARY_OUT_OF_BOUNDS_COORD = 32767"

text \<open>
  The literal \<^verbatim>\<open>10e-7\<close> is \<open>10 * 10\<^sup>-\<^sup>7\<close>. The divisor of \<^verbatim>\<open>slope\<close> is at
  least that in absolute value, so the quotient is an ordinary one. The last
  adjustment of the source multiplies \<^verbatim>\<open>expanded.point2.y\<close> by 1.
\<close>

definition expandLine :: "Line \<Rightarrow> Line" where
  "expandLine original =
     (let p1 = point1 original; p2 = point2 original in
      if \<bar>px p2 - px p1\<bar> < 10 / 10 ^ 7 then
        (if py p2 < py p1
         then Line p1 (Point (px p1) ((-1) * ARBITRARY_OUT_OF_BOUNDS_COORD))
         else Line p1 (Point (px p1) ARBITRARY_OUT_OF_BOUNDS_COORD))
      else if \<bar>py p2 - py p1\<bar> < 10 / 10 ^ 7 then
        (if px p2 < px p1
         then Line p1 (Point ((-1) * ARBITRARY_OUT_OF_BOUNDS_COORD) (py p1))
         else Line p1 (Point ARBITRARY_OUT_OF_BOUNDS_COORD (py p1)))
      else
        (let slope = (py p2 - py p1) / (px p2 - px p1);
             y_intercept = py p1 - slope * px p1;
             ex = ARBITRARY_OUT_OF_BOUNDS_COORD;
             ey = slope * ex + y_intercept;
             ex = (if px p2 < px p1 then ex * (-1) else ex);
             ey = (if py p2 < py p1 then ey * 1 else ey)
         in Line p1 (Point ex ey)))"

section \<open>Visibility resolver\<close>

text \<open>
  The search state is the pair of the locals \<^verbatim>\<open>intersection\<close> and
  \<^verbatim>\<open>dist_to_intersection\<close>. The local \<^verbatim>\<open>intersection\<close> is declared without an
  initialiser: \<open>None\<close> stands for its indeterminate value, \<open>Some p\<close> for the point
  assigned to it. (The scratch local \<^verbatim>\<open>temp\<close> is the \<open>Some\<close> of the intersection
  test; it is not read anywhere else.)
\<close>

type_synonym search = "Point option \<times> real"

definition evaluateIntersection :: "Line \<Rightarrow> Line \<Rightarrow> Line \<Rightarrow> search \<Rightarrow> search" where
  "evaluateIntersection start expanded toIntersect s =
     (case findLineSegmentIntersection expanded toIntersect of
        Some temp \<Rightarrow>
          if pointDistance (point1 start) temp < snd s
          then (Some temp, pointDistance (point1 start) temp)
          else s
      | None \<Rightarrow> s)"

text \<open>One \<^verbatim>\<open>for\<close> loop over an obstacle array.\<close>

fun evaluateAll :: "Line \<Rightarrow> Line \<Rightarrow> Line list \<Rightarrow> search \<Rightarrow> search" where
  "evaluateAll start expanded [] s = s"
| "evaluateAll start expanded (w # ws) s =
     evaluateAll start expanded ws (evaluateIntersection start expanded w s)"

text \<open>\<^verbatim>\<open>(double) INT64_MAX\<close>: the conversion rounds \<open>2\<^sup>6\<^sup>3 - 1\<close> to the double \<open>2\<^sup>6\<^sup>3\<close>.\<close>

definition INT64_MAX_double :: real where
  "INT64_MAX_double = 2 ^ 63"

text \<open>
  The resolver over a wall array \<open>ws\<close> followed by the four borders; the program's
  \<^verbatim>\<open>findNearestIntersectionPoint\<close> is the instance at its global array \<^verbatim>\<open>walls\<close>.
\<close>

definition findNearestIntersectionPointIn :: "Line list \<Rightarrow> Line \<Rightarrow> Point option" where
  "findNearestIntersectionPointIn ws start =
     (let expanded = expandLine start;
          s = (None, INT64_MAX_double);
          s = evaluateAll start expanded ws s;
          s = evaluateAll start expanded borders s
      in fst s)"

definition findNearestIntersectionPoint :: "Line \<Rightarrow> Point option" where
  "findNearestIntersectionPoint start = findNearestIntersectionPointIn walls start"

section \<open>Ray field generator\<close>

text \<open>
  The loop of \<^verbatim>\<open>drawRays\<close>. The increment \<^verbatim>\<open>inc\<close> is the quotient
  \<^verbatim>\<open>2.0 * PI / RAY_DENSITY\<close>, computed before the loop whatever the density is.
  Each iteration emits two vertices: \<open>Segment origin endPoint\<close>. With an increment
  that is not finite the angle \<^verbatim>\<open>i * inc\<close> is not a number and neither is the
  probe: \<open>NotANumber\<close>.
\<close>

definition onCircumference :: "Point \<Rightarrow> real \<Rightarrow> int \<Rightarrow> Point" where
  "onCircumference origin inc i =
     Point (px origin + CIRCLE_RADIUS * cos (real_of_int i * inc))
           (py origin + (CIRCLE_RADIUS * monitor_widescreen_compensation)
                          * sin (real_of_int i * inc))"

datatype vertices = Segment Point "Point option" | NotANumber

definition castRay :: "Line list \<Rightarrow> Point \<Rightarrow> ieee \<Rightarrow> int \<Rightarrow> vertices" where
  "castRay ws origin inc i =
     (case inc of
        Finite r \<Rightarrow>
          Segment origin
            (findNearestIntersectionPointIn ws (Line origin (onCircumference origin r i)))
      | _ \<Rightarrow> NotANumber)"

function rayLoop :: "Line list \<Rightarrow> Point \<Rightarrow> ieee \<Rightarrow> int \<Rightarrow> int \<Rightarrow> vertices list" where
  "rayLoop ws origin inc n i =
     (if i < n then castRay ws origin inc i # rayLoop ws origin inc n (i + 1) else [])"
  by pat_completeness auto
termination
  by (relation "measure (\<lambda>(ws, origin, inc, n, i). nat (n - i))") auto

text \<open>
  \<^verbatim>\<open>drawRays\<close> on the cursor position read from the window and the global
  \<^verbatim>\<open>RAY_DENSITY\<close>, over a wall array \<open>ws\<close>; the program's is \<open>drawRays\<close>.
\<close>

definition drawRaysIn :: "Line list \<Rightarrow> real \<Rightarrow> real \<Rightarrow> real \<Rightarrow> vertices list" where
  "drawRaysIn ws xorigin yorigin RAY_DENSITY =
     (let normalizedOrigin = normalizeMonitorCoordinates xorigin yorigin;
          inc = fdiv (2 * PI) RAY_DENSITY
      in rayLoop ws normalizedOrigin inc (int_of_double RAY_DENSITY) 0)"

definition drawRays :: "real \<Rightarrow> real \<Rightarrow> real \<Rightarrow> vertices list" where
  "drawRays xorigin yorigin RAY_DENSITY = drawRaysIn walls xorigin yorigin RAY_DENSITY"

section \<open>Ray density\<close>

text \<open>The global \<^verbatim>\<open>RAY_DENSITY\<close> starts at 180; \<^verbatim>\<open>scroll_callback\<close> returns its new value.\<close>

definition RAY_DENSITY_init :: real where
  "RAY_DENSITY_init = 180"

definition scroll_callback :: "real \<Rightarrow> real \<Rightarrow> real" where
  "scroll_callback RAY_DENSITY yoffset =
     (let d = RAY_DENSITY + yoffset in
      if d < 0 then 0 else if d > 1080 then 1080 else d)"

text \<open>The densities after each event of a sequence of scroll events, in order.\<close>

fun densities :: "real \<Rightarrow> real list \<Rightarrow> real list" where
  "densities d [] = []"
| "densities d (y # ys) = scroll_callback d y # densities (scroll_callback d y) ys"

section \<open>Double arithmetic\<close>

text \<open>
  IEEE-754 binary64 with the default rounding mode: the result of an operation is
  the exact result rounded to the nearest number with a significand of 53 bits,
  a tie going to the even significand. \<open>rne\<close> rounds to the nearest integer, ties to
  the even one; \<open>r64\<close> applies it at the scale that gives the significand 53 bits.
  The exponent is not bounded: overflow and subnormal numbers are left out, the
  magnitudes met below are far from both ends of the binary64 range.
\<close>

definition rne :: "real \<Rightarrow> int" where
  "rne y =
     (let f = \<lfloor>y\<rfloor> in
      if y - of_int f < 1 / 2 then f
      else if 1 / 2 < y - of_int f then f + 1
      else if even f then f else f + 1)"

definition r64 :: "real \<Rightarrow> real" where
  "r64 x =
     (if x = 0 then 0
      else (let q = 2 powr (of_int \<lfloor>log 2 \<bar>x\<bar>\<rfloor> - 52) in of_int (rne (x / q)) * q))"

text \<open>
  Each \<^verbatim>\<open>+\<close>, \<^verbatim>\<open>-\<close>, \<^verbatim>\<open>*\<close>, \<^verbatim>\<open>/\<close> and \<^verbatim>\<open>sqrt\<close> of the source is one operation with one
  rounding (no fused multiply-add, no excess precision). Negation, the absolute
  value, the comparisons and a product with \<open>1\<close> or \<open>-1\<close> are exact.
\<close>

definition fadd :: "real \<Rightarrow> real \<Rightarrow> real" where
  "fadd a b = r64 (a + b)"

definition fsub :: "real \<Rightarrow> real \<Rightarrow> real" where
  "fsub a b = r64 (a - b)"

definition fmul :: "real \<Rightarrow> real \<Rightarrow> real" where
  "fmul a b = r64 (a * b)"

definition fquot :: "real \<Rightarrow> real \<Rightarrow> real" where
  "fquot a b = r64 (a / b)"

definition fsqrt :: "real \<Rightarrow> real" where
  "fsqrt a = r64 (sqrt a)"

text \<open>The quotient of two doubles, the divisor possibly zero.\<close>

definition fdiv64 :: "real \<Rightarrow> real \<Rightarrow> ieee" where
  "fdiv64 a b =
     (if b \<noteq> 0 then Finite (fquot a b)
      else if 0 < a then PosInf
      else if a < 0 then NegInf
      else NaN)"

text \<open>
  A decimal literal of the source denotes the double nearest to it: the segment
  \<^verbatim>\<open>{{0.65, 0.5}, {0.7, 0.8}}\<close> of the source is \<open>literal\<close> of the segment with these
  decimal fractions as coordinates. \<open>walls64\<close> and \<open>borders64\<close> are the two arrays
  as the program holds them.
\<close>

definition literal :: "Line \<Rightarrow> Line" where
  "literal l =
     Line (Point (r64 (px (point1 l))) (r64 (py (point1 l))))
          (Point (r64 (px (point2 l))) (r64 (py (point2 l))))"

definition walls64 :: "Line list" where
  "walls64 = map literal walls"

definition borders64 :: "Line list" where
  "borders64 = map literal borders"

text \<open>
  \<^verbatim>\<open>sqrt(pow(p2.x - p1.x, 2) + pow(p2.y - p1.y, 2))\<close>, with \<^verbatim>\<open>pow(d, 2)\<close> taken to
  return the rounded square of \<open>d\<close>. The argument of \<^verbatim>\<open>sqrt\<close> is never negative.
\<close>

definition pointDistance64 :: "Point \<Rightarrow> Point \<Rightarrow> real" where
  "pointDistance64 p1 p2 =
     fsqrt (fadd (fmul (fsub (px p2) (px p1)) (fsub (px p2) (px p1)))
                 (fmul (fsub (py p2) (py p1)) (fsub (py p2) (py p1))))"

text \<open>
  \<^verbatim>\<open>findLineSegmentIntersection\<close>, operation by operation: the divisor, the two
  quotients \<^verbatim>\<open>t\<close> and \<^verbatim>\<open>u\<close>, the range test on them, and the point
  \<^verbatim>\<open>x1 + t * (x2 - x1)\<close>, \<^verbatim>\<open>y1 + t * (y2 - y1)\<close>.
\<close>

definition denominator64 :: "Line \<Rightarrow> Line \<Rightarrow> real" where
  "denominator64 l1 l2 =
     fsub (fmul (fsub (px (point1 l1)) (px (point2 l1))) (fsub (py (point1 l2)) (py (point2 l2))))
          (fmul (fsub (py (point1 l1)) (py (point2 l1))) (fsub (px (point1 l2)) (px (point2 l2))))"

definition param_t64 :: "Line \<Rightarrow> Line \<Rightarrow> ieee" where
  "param_t64 l1 l2 =
     fdiv64 (fsub (fmul (fsub (px (point1 l1)) (px (point1 l2))) (fsub (py (point1 l2)) (py (point2 l2))))
                  (fmul (fsub (py (point1 l1)) (py (point1 l2))) (fsub (px (point1 l2)) (px (point2 l2)))))
            (denominator64 l1 l2)"

definition param_u64 :: "Line \<Rightarrow> Line \<Rightarrow> ieee" where
  "param_u64 l1 l2 =
     fdiv64 (- fsub (fmul (fsub (px (point1 l1)) (px (point2 l1))) (fsub (py (point1 l1)) (py (point1 l2))))
                    (fmul (fsub (py (point1 l1)) (py (point2 l1))) (fsub (px (point1 l1)) (px (point1 l2)))))
            (denominator64 l1 l2)"

definition pointAt64 :: "Line \<Rightarrow> real \<Rightarrow> Point" where
  "pointAt64 l t =
     Point (fadd (px (point1 l)) (fmul t (fsub (px (point2 l)) (px (point1 l)))))
           (fadd (py (point1 l)) (fmul t (fsub (py (point2 l)) (py (point1 l)))))"

definition findLineSegmentIntersection64 :: "Line \<Rightarrow> Line \<Rightarrow> Point option" where
  "findLineSegmentIntersection64 l1 l2 =
     (case param_t64 l1 l2 of
        Finite t \<Rightarrow>
          (case param_u64 l1 l2 of
             Finite u \<Rightarrow>
               if 0 \<le> t \<and> t \<le> 1 \<and> 0 \<le> u \<and> u \<le> 1 then Some (pointAt64 l1 t) else None
           | _ \<Rightarrow> None)
      | _ \<Rightarrow> None)"

text \<open>
  \<^verbatim>\<open>expandLine\<close>, operation by operation. The literal \<^verbatim>\<open>10e-7\<close> is the double nearest
  to \<open>10 * 10\<^sup>-\<^sup>7\<close>; \<^verbatim>\<open>INT16_MAX\<close> is exactly representable.
\<close>

definition expandLine64 :: "Line \<Rightarrow> Line" where
  "expandLine64 original =
     (let p1 = point1 original; p2 = point2 original in
      if \<bar>fsub (px p2) (px p1)\<bar> < r64 (10 / 10 ^ 7) then
        (if py p2 < py p1
         then Line p1 (Point (px p1) ((-1) * ARBITRARY_OUT_OF_BOUNDS_COORD))
         else Line p1 (Point (px p1) ARBITRARY_OUT_OF_BOUNDS_COORD))
      else if \<bar>fsub (py p2) (py p1)\<bar> < r64 (10 / 10 ^ 7) then
        (if px p2 < px p1
         then Line p1 (Point ((-1) * ARBITRARY_OUT_OF_BOUNDS_COORD) (py p1))
         else Line p1 (Point ARBITRARY_OUT_OF_BOUNDS_COORD (py p1)))
      else
        (let slope = fquot (fsub (py p2) (py p1)) (fsub (px p2) (px p1));
             y_intercept = fsub (py p1) (fmul slope (px p1));
             ex = ARBITRARY_OUT_OF_BOUNDS_COORD;
             ey = fadd (fmul slope ex) y_intercept;
             ex = (if px p2 < px p1 then ex * (-1) else ex);
             ey = (if py p2 < py p1 then ey * 1 else ey)
         in Line p1 (Point ex ey)))"

text \<open>
  The resolver: the same search as \<open>evaluateIntersection\<close>, \<open>evaluateAll\<close> and
  \<open>findNearestIntersectionPointIn\<close>, over the rounded intersection test, the
  rounded distance and the rounded extension.
\<close>

definition evaluateIntersection64 :: "Line \<Rightarrow> Line \<Rightarrow> Line \<Rightarrow> search \<Rightarrow> search" where
  "evaluateIntersection64 start expanded toIntersect s =
     (case findLineSegmentIntersection64 expanded toIntersect of
        Some temp \<Rightarrow>
          if pointDistance64 (point1 start) temp < snd s
          then (Some temp, pointDistance64 (point1 start) temp)
          else s
      | None \<Rightarrow> s)"

fun evaluateAll64 :: "Line \<Rightarrow> Line \<Rightarrow> Line list \<Rightarrow> search \<Rightarrow> search" where
  "evaluateAll64 start expanded [] s = s"
| "evaluateAll64 start expanded (w # ws) s =
     evaluateAll64 start expanded ws (evaluateIntersection64 start expanded w s)"

definition findNearestIntersectionPointIn64 :: "Line list \<Rightarrow> Line \<Rightarrow> Point option" where
  "findNearestIntersectionPointIn64 ws start =
     (let expanded = expandLine64 start;
          s = (None, INT64_MAX_double);
          s = evaluateAll64 start expanded ws s;
          s = evaluateAll64 start expanded borders64 s
      in fst s)"

definition findNearestIntersectionPoint64 :: "Line \<Rightarrow> Point option" where
  "findNearestIntersectionPoint64 start = findNearestIntersectionPointIn64 walls64 start"

section \<open>Notions the properties are stated with\<close>

text \<open>
  Two segments are parallel when the cross product of their direction vectors is
  zero; this covers collinear segments and segments of length zero.
\<close>

definition direction_cross :: "Line \<Rightarrow> Line \<Rightarrow> real" where
  "direction_cross l1 l2 =
     (px (point2 l1) - px (point1 l1)) * (py (point2 l2) - py (point1 l2))
     - (py (point2 l1) - py (point1 l1)) * (px (point2 l2) - px (point1 l2))"

definition parallel :: "Line \<Rightarrow> Line \<Rightarrow> bool" where
  "parallel l1 l2 = (direction_cross l1 l2 = 0)"

text \<open>The point \<open>start + s * (end - start)\<close> of a segment; it lies on the segment
  for \<open>s\<close> in \<open>[0, 1]\<close>.\<close>

definition pointAt :: "Line \<Rightarrow> real \<Rightarrow> Point" where
  "pointAt l s =
     Point (px (point1 l) + s * (px (point2 l) - px (point1 l)))
           (py (point1 l) + s * (py (point2 l) - py (point1 l)))"

text \<open>The probe segment number \<open>i\<close> of \<open>N\<close> around an origin, in the spec's words: from the
  origin to the point at angle \<open>i * (2 PI / N)\<close> of the reference circle of radius 0.05,
  its vertical radius scaled by the display's width/height ratio.\<close>

definition probe :: "Point \<Rightarrow> nat \<Rightarrow> nat \<Rightarrow> Line" where
  "probe origin N i =
     Line origin
       (Point (px origin + (5/100) * cos (real i * (2 * PI / real N)))
              (py origin + (5/100) * (1920/1080) * sin (real i * (2 * PI / real N))))"

text \<open>The four sides of the square of half-width \<open>c\<close> about the centre, in the order and
  with the orientation of \<^verbatim>\<open>borders\<close>.\<close>

definition rectangle :: "real \<Rightarrow> Line list" where
  "rectangle c =
     [Line (Point (- c) c) (Point c c),
      Line (Point c c) (Point c (- c)),
      Line (Point (- c) (- c)) (Point c (- c)),
      Line (Point (- c) c) (Point (- c) (- c))]"

text \<open>
  Directions of segments. Two segments point in the same direction when the cross
  product of their direction vectors is zero and the dot product is positive; the
  dot product of the normalised direction vectors is then 1.
\<close>

definition dotProduct :: "Line \<Rightarrow> Line \<Rightarrow> real" where
  "dotProduct l1 l2 =
     (px (point2 l1) - px (point1 l1)) * (px (point2 l2) - px (point1 l2))
     + (py (point2 l1) - py (point1 l1)) * (py (point2 l2) - py (point1 l2))"

definition normalizedDot :: "Line \<Rightarrow> Line \<Rightarrow> real" where
  "normalizedDot l1 l2 =
     dotProduct l1 l2
       / (pointDistance (point1 l1) (point2 l1) * pointDistance (point1 l2) (point2 l2))"

definition sameDirection :: "Line \<Rightarrow> Line \<Rightarrow> bool" where
  "sameDirection l1 l2 = (direction_cross l1 l2 = 0 \<and> 0 < dotProduct l1 l2)"



section \<open>Ray density stays in range\<close>

lemma scroll_callback_range: "0 \<le> scroll_callback d y \<and> scroll_callback d y \<le> 1080"
  by (simp add: scroll_callback_def Let_def)

lemma densities_range: "\<forall>e \<in> set (densities d ys). 0 \<le> e \<and> e \<le> 1080"
  by (induction ys arbitrary: d) (simp_all add: scroll_callback_range)

text \<open>
  C8. After every event of every sequence of scroll events the density lies in
  \<open>[0, 1080]\<close>; one event that would take it below 0 leaves 0, one that would take it
  above 1080 leaves 1080, and any other event changes it by exactly the offset.
  The function is total: no event is an error.
\<close>

theorem scroll_callback_clamps:
  "(\<forall>e \<in> set (densities d ys). 0 \<le> e \<and> e \<le> 1080)
   \<and> (d + y < 0 \<longrightarrow> scroll_callback d y = 0)
   \<and> (1080 < d + y \<longrightarrow> scroll_callback d y = 1080)
   \<and> (0 \<le> d + y \<and> d + y \<le> 1080 \<longrightarrow> scroll_callback d y - d = y)"
  using densities_range [of d ys] by (simp add: scroll_callback_def Let_def)

theorem scroll_callback_clamps_witness:
  "densities RAY_DENSITY_init [1, -200, 2000] = [181, 0, 1080]
   \<and> scroll_callback 0 (-1) = 0
   \<and> scroll_callback 1080 1 = 1080
   \<and> scroll_callback 180 1 - 180 = 1"
  using scroll_callback_clamps [of RAY_DENSITY_init "[1, -200, 2000]" "-181"]
    scroll_callback_clamps [of 1080 "[]" 1] scroll_callback_clamps [of 180 "[]" 1]
  by (simp add: scroll_callback_def RAY_DENSITY_init_def)

section \<open>Segment intersection in exact arithmetic\<close>

lemma denominator_cross: "denominator l1 l2 = direction_cross l1 l2"
  by (simp add: denominator_def direction_cross_def algebra_simps)

lemma fdiv_zero: "fdiv a 0 \<noteq> Finite r"
  by (simp add: fdiv_def)

lemma fdiv_nonzero: "b \<noteq> 0 \<Longrightarrow> fdiv a b = Finite (a / b)"
  by (simp add: fdiv_def)

lemma intersection_finite:
  "param_t A B = Finite t \<Longrightarrow> param_u A B = Finite u \<Longrightarrow>
   findLineSegmentIntersection A B =
     (if 0 \<le> t \<and> t \<le> 1 \<and> 0 \<le> u \<and> u \<le> 1 then Some (pointAt A t) else None)"
  by (simp add: findLineSegmentIntersection_def pointAt_def Let_def)

lemma intersection_t_not_finite:
  "\<forall>r. param_t A B \<noteq> Finite r \<Longrightarrow> findLineSegmentIntersection A B = None"
  by (cases "param_t A B") (auto simp add: findLineSegmentIntersection_def Let_def)

text \<open>
  In exact arithmetic the divisor of both quotients is zero for parallel segments
  (collinear overlapping segments included) and the intersection test reports no
  intersection: the quotient is an infinity or a NaN, the range test on it is
  false, and the function returns 0.
\<close>

lemma exact_parallel_no_intersection:
  "parallel l1 l2 \<Longrightarrow> findLineSegmentIntersection l1 l2 = None"
proof -
  assume "parallel l1 l2"
  then have "denominator l1 l2 = 0"
    by (simp add: parallel_def denominator_cross)
  then have "\<forall>r. param_t l1 l2 \<noteq> Finite r"
    by (simp add: param_t_def fdiv_zero)
  then show ?thesis
    by (rule intersection_t_not_finite)
qed

text \<open>The quotients of the source solve the two parametric equations.\<close>

lemma params_meet:
  assumes "denominator A B \<noteq> 0"
  shows "pointAt A (((px (point1 A) - px (point1 B)) * (py (point1 B) - py (point2 B))
           - (py (point1 A) - py (point1 B)) * (px (point1 B) - px (point2 B))) / denominator A B)
       = pointAt B ((- ((px (point1 A) - px (point2 A)) * (py (point1 A) - py (point1 B))
              - (py (point1 A) - py (point2 A)) * (px (point1 A) - px (point1 B)))) / denominator A B)"
  using assms
  apply (simp add: pointAt_def denominator_def)
  apply (simp add: field_simps)
  done

text \<open>
  In exact arithmetic, for segments \<open>A\<close> and \<open>B\<close> that are not parallel, the parameters
  \<open>t\<close> and \<open>u\<close> are ordinary numbers, the point at \<open>t\<close> along \<open>A\<close> is the point at \<open>u\<close>
  along \<open>B\<close>, and the test returns a point exactly when both parameters lie in
  \<open>[0, 1]\<close>; the point returned is that common point, which then lies on both
  segments.
\<close>

lemma exact_intersection_iff_params_in_range:
  assumes "\<not> parallel A B"
  shows "\<exists>t u. param_t A B = Finite t \<and> param_u A B = Finite u
           \<and> pointAt A t = pointAt B u
           \<and> findLineSegmentIntersection A B =
               (if 0 \<le> t \<and> t \<le> 1 \<and> 0 \<le> u \<and> u \<le> 1 then Some (pointAt A t) else None)"
proof -
  from assms have d: "denominator A B \<noteq> 0"
    by (simp add: parallel_def denominator_cross)
  define t where "t = ((px (point1 A) - px (point1 B)) * (py (point1 B) - py (point2 B))
           - (py (point1 A) - py (point1 B)) * (px (point1 B) - px (point2 B))) / denominator A B"
  define u where "u = (- ((px (point1 A) - px (point2 A)) * (py (point1 A) - py (point1 B))
              - (py (point1 A) - py (point2 A)) * (px (point1 A) - px (point1 B)))) / denominator A B"
  have pt: "param_t A B = Finite t"
    by (simp add: param_t_def fdiv_nonzero [OF d] t_def)
  have pu: "param_u A B = Finite u"
    by (simp add: param_u_def fdiv_nonzero [OF d] u_def)
  have meet: "pointAt A t = pointAt B u"
    unfolding t_def u_def by (rule params_meet [OF d])
  from pt pu meet intersection_finite [OF pt pu] show ?thesis
    by blast
qed

section \<open>The ray loop\<close>

declare rayLoop.simps [simp del]

lemma rayLoop_done: "n \<le> i \<Longrightarrow> rayLoop ws origin inc n i = []"
  by (simp add: rayLoop.simps)

lemma rayLoop_step:
  "i < n \<Longrightarrow> rayLoop ws origin inc n i = castRay ws origin inc i # rayLoop ws origin inc n (i + 1)"
  by (subst rayLoop.simps) simp

lemma rayLoop_map:
  "rayLoop ws origin inc n i = map (\<lambda>k. castRay ws origin inc (i + int k)) [0..<nat (n - i)]"
proof (induction ws origin inc n i rule: rayLoop.induct)
  case (1 ws origin inc n i)
  show ?case
  proof (cases "i < n")
    case True
    then have n: "nat (n - i) = Suc (nat (n - (i + 1)))"
      by simp
    have "map (\<lambda>k. castRay ws origin inc (i + int k)) [0..<Suc (nat (n - (i + 1)))]
        = castRay ws origin inc i # map (\<lambda>k. castRay ws origin inc (i + 1 + int k)) [0..<nat (n - (i + 1))]"
      by (simp add: upt_conv_Cons map_Suc_upt [symmetric] add.assoc del: upt_Suc)
    with True "1.IH" n show ?thesis
      by (simp add: rayLoop_step)
  next
    case False
    then show ?thesis
      by (simp add: rayLoop_done)
  qed
qed

lemma int_of_double_of_nat: "int_of_double (real N) = int N"
  by (simp add: int_of_double_def)

text \<open>Every point of the normalised square is the origin of some cursor position.\<close>

lemma origin_reachable:
  "\<bar>a\<bar> \<le> 1 \<Longrightarrow> \<bar>b\<bar> \<le> 1 \<Longrightarrow>
   normalizeMonitorCoordinates (960 + 960 * a) (540 - 540 * b) = Point a b"
  by (auto simp add: normalizeMonitorCoordinates_def MONITOR_SIZE_X_def MONITOR_SIZE_Y_def Let_def)

text \<open>
  C6. For a density that is the count \<open>N > 0\<close>, one frame casts exactly \<open>N\<close> rays, in
  order; ray \<open>i\<close> is the nearest hit of the probe segment from the origin to
  \<open>(x + r cos (i * 2 PI / N), y + r c sin (i * 2 PI / N))\<close>, with \<open>r = 0.05\<close>,
  \<open>c = 1920 / 1080\<close> and \<open>PI\<close> the program's constant. The origin is the normalised
  cursor position.
\<close>

theorem ray_field:
  assumes "0 < N"
  shows "drawRaysIn ws xorigin yorigin (real N) =
           map (\<lambda>i. Segment (normalizeMonitorCoordinates xorigin yorigin)
                  (findNearestIntersectionPointIn ws
                     (probe (normalizeMonitorCoordinates xorigin yorigin) N i)))
               [0..<N]"
  using assms
  by (simp add: drawRaysIn_def Let_def fdiv_def int_of_double_of_nat rayLoop_map castRay_def
      probe_def onCircumference_def CIRCLE_RADIUS_def monitor_widescreen_compensation_def
      MONITOR_SIZE_X_def MONITOR_SIZE_Y_def)

theorem ray_field_witness:
  "(0::nat) < 2 \<and> length (drawRaysIn [] 960 540 (real 2)) = 2"
  using ray_field [of 2 "[]" 960 540] by simp

text \<open>
  C10. With a density of 0 a frame casts no ray: the loop bound is 0, the loop body
  never runs, so the infinite increment \<open>2 PI / 0\<close> is never used and no nearest hit
  is computed; the frame completes with no vertex emitted.
\<close>

theorem no_rays_at_density_zero:
  "drawRays xorigin yorigin 0 = []
   \<and> fdiv (2 * PI) 0 = PosInf
   \<and> rayLoop ws origin inc (int_of_double 0) 0 = []"
  by (simp add: drawRays_def drawRaysIn_def Let_def int_of_double_def rayLoop_done fdiv_def PI_def)

section \<open>The visibility resolver\<close>

text \<open>The two loops of the resolver are one loop over the walls followed by the borders.\<close>

lemma evaluateAll_append:
  "evaluateAll start ex (xs @ ys) s = evaluateAll start ex ys (evaluateAll start ex xs s)"
  by (induction xs arbitrary: s) simp_all

lemma findNearest_one_loop:
  "findNearestIntersectionPointIn ws start =
     fst (evaluateAll start (expandLine start) (ws @ borders) (None, INT64_MAX_double))"
  by (simp add: findNearestIntersectionPointIn_def evaluateAll_append Let_def)

lemma evaluateIntersection_miss:
  "findLineSegmentIntersection ex w = None \<Longrightarrow> evaluateIntersection start ex w s = s"
  by (simp add: evaluateIntersection_def)

lemma evaluateIntersection_hit:
  "findLineSegmentIntersection ex w = Some q \<Longrightarrow>
   evaluateIntersection start ex w (r, b) =
     (if pointDistance (point1 start) q < b then (Some q, pointDistance (point1 start) q) else (r, b))"
  by (simp add: evaluateIntersection_def)

text \<open>An obstacle changes the search state only when its hit is strictly closer than
  the distance recorded so far.\<close>

lemma evaluateAll_no_closer:
  "\<forall>w \<in> set os. \<forall>q. findLineSegmentIntersection ex w = Some q \<longrightarrow> \<not> pointDistance (point1 start) q < b
   \<Longrightarrow> evaluateAll start ex os (r, b) = (r, b)"
proof (induction os)
  case Nil
  show ?case by simp
next
  case (Cons w os)
  have "evaluateIntersection start ex w (r, b) = (r, b)"
  proof (cases "findLineSegmentIntersection ex w")
    case None
    then show ?thesis by (simp add: evaluateIntersection_miss)
  next
    case (Some q)
    with Cons.prems have "\<not> pointDistance (point1 start) q < b" by simp
    with Some show ?thesis by (simp add: evaluateIntersection_hit)
  qed
  with Cons show ?case by simp
qed

text \<open>
  The loop from any state: when some obstacle's hit is closer than the recorded
  distance, the loop ends on the hit of an obstacle \<open>w\<close> such that every earlier
  obstacle's hit is strictly farther and every later one's is at least as far.
\<close>

lemma evaluateAll_nearest:
  assumes "\<exists>w \<in> set os. \<exists>q. findLineSegmentIntersection ex w = Some q \<and> pointDistance (point1 start) q < b"
  shows "\<exists>pre w post p. os = pre @ w # post
           \<and> evaluateAll start ex os (r, b) = (Some p, pointDistance (point1 start) p)
           \<and> findLineSegmentIntersection ex w = Some p
           \<and> pointDistance (point1 start) p < b
           \<and> (\<forall>v \<in> set pre. \<forall>q. findLineSegmentIntersection ex v = Some q
                  \<longrightarrow> pointDistance (point1 start) p < pointDistance (point1 start) q)
           \<and> (\<forall>v \<in> set post. \<forall>q. findLineSegmentIntersection ex v = Some q
                  \<longrightarrow> pointDistance (point1 start) p \<le> pointDistance (point1 start) q)"
  using assms
proof (induction os arbitrary: r b)
  case Nil
  then show ?case by simp
next
  case (Cons w os)
  let ?d = "pointDistance (point1 start)"
  let ?hit = "findLineSegmentIntersection ex"
  show ?case
  proof (cases "\<exists>q. ?hit w = Some q \<and> ?d q < b")
    case True
    then obtain q0 where q0: "?hit w = Some q0" "?d q0 < b" by blast
    then have step: "evaluateIntersection start ex w (r, b) = (Some q0, ?d q0)"
      by (simp add: evaluateIntersection_hit)
    show ?thesis
    proof (cases "\<exists>v \<in> set os. \<exists>q. ?hit v = Some q \<and> ?d q < ?d q0")
      case True
      from Cons.IH [OF True, of "Some q0"] obtain pre v post p where
        os: "os = pre @ v # post"
        and res: "evaluateAll start ex os (Some q0, ?d q0) = (Some p, ?d p)"
        and hit: "?hit v = Some p" and less: "?d p < ?d q0"
        and pre: "\<forall>v \<in> set pre. \<forall>q. ?hit v = Some q \<longrightarrow> ?d p < ?d q"
        and post: "\<forall>v \<in> set post. \<forall>q. ?hit v = Some q \<longrightarrow> ?d p \<le> ?d q"
        by blast
      have "w # os = (w # pre) @ v # post" using os by simp
      moreover have "evaluateAll start ex (w # os) (r, b) = (Some p, ?d p)"
        using step res by simp
      moreover have "?d p < b" using less q0 by simp
      moreover have "\<forall>v \<in> set (w # pre). \<forall>q. ?hit v = Some q \<longrightarrow> ?d p < ?d q"
        using pre less q0 by auto
      ultimately show ?thesis using hit post by blast
    next
      case False
      then have "evaluateAll start ex os (Some q0, ?d q0) = (Some q0, ?d q0)"
        by (intro evaluateAll_no_closer) blast
      then have "evaluateAll start ex (w # os) (r, b) = (Some q0, ?d q0)"
        using step by simp
      moreover have "w # os = [] @ w # os" by simp
      moreover have "\<forall>v \<in> set os. \<forall>q. ?hit v = Some q \<longrightarrow> ?d q0 \<le> ?d q"
        using False by (meson not_le)
      ultimately show ?thesis using q0
        by (metis empty_iff list.set(1))
    qed
  next
    case False
    then have same: "evaluateIntersection start ex w (r, b) = (r, b)"
      by (cases "?hit w") (simp_all add: evaluateIntersection_miss evaluateIntersection_hit)
    from False Cons.prems have "\<exists>v \<in> set os. \<exists>q. ?hit v = Some q \<and> ?d q < b"
      by auto
    from Cons.IH [OF this, of r] obtain pre v post p where
      os: "os = pre @ v # post"
      and res: "evaluateAll start ex os (r, b) = (Some p, ?d p)"
      and hit: "?hit v = Some p" and less: "?d p < b"
      and pre: "\<forall>v \<in> set pre. \<forall>q. ?hit v = Some q \<longrightarrow> ?d p < ?d q"
      and post: "\<forall>v \<in> set post. \<forall>q. ?hit v = Some q \<longrightarrow> ?d p \<le> ?d q"
      by blast
    have "w # os = (w # pre) @ v # post" using os by simp
    moreover have "evaluateAll start ex (w # os) (r, b) = (Some p, ?d p)"
      using same res by simp
    moreover have "\<forall>v \<in> set (w # pre). \<forall>q. ?hit v = Some q \<longrightarrow> ?d p < ?d q"
      using pre less False by auto
    ultimately show ?thesis using hit post less by blast
  qed
qed

text \<open>Distances compare as their squares do.\<close>

lemma dist_less_const:
  "0 < c \<Longrightarrow>
   (pointDistance a b < c)
     = ((px b - px a) * (px b - px a) + (py b - py a) * (py b - py a) < c * c)"
proof -
  assume c: "0 < c"
  have "(sqrt ((px b - px a)\<^sup>2 + (py b - py a)\<^sup>2) < sqrt (c\<^sup>2))
      = ((px b - px a)\<^sup>2 + (py b - py a)\<^sup>2 < c\<^sup>2)"
    by (rule real_sqrt_less_iff)
  with c show ?thesis
    by (simp add: pointDistance_def power2_eq_square)
qed

lemma dist_less_dist:
  "(pointDistance a b < pointDistance a' b')
     = ((px b - px a) * (px b - px a) + (py b - py a) * (py b - py a)
        < (px b' - px a') * (px b' - px a') + (py b' - py a') * (py b' - py a'))"
  by (simp add: pointDistance_def power2_eq_square)

lemmas evaluate_intersection =
  findLineSegmentIntersection_def param_t_def param_u_def denominator_def fdiv_def Let_def

lemmas evaluate_expand = expandLine_def ARBITRARY_OUT_OF_BOUNDS_COORD_def Let_def

text \<open>
  C9. When the extended probe meets no wall and no border, the resolver returns its
  local \<^verbatim>\<open>intersection\<close> as declared, never assigned: an indeterminate point, with
  no error and no abort. A point that was assigned is the intersection of the
  extended probe with some obstacle, so the result is determined only when at
  least one obstacle meets the extended probe.
\<close>

theorem no_hit_is_indeterminate:
  "((\<forall>w \<in> set (ws @ borders). findLineSegmentIntersection (expandLine start) w = None)
      \<longrightarrow> findNearestIntersectionPointIn ws start = None)
   \<and> (findNearestIntersectionPointIn ws start = Some p
      \<longrightarrow> (\<exists>w \<in> set (ws @ borders). findLineSegmentIntersection (expandLine start) w = Some p))"
proof (intro conjI impI)
  assume "\<forall>w \<in> set (ws @ borders). findLineSegmentIntersection (expandLine start) w = None"
  then have "evaluateAll start (expandLine start) (ws @ borders) (None, INT64_MAX_double)
      = (None, INT64_MAX_double)"
    by (intro evaluateAll_no_closer) simp
  then show "findNearestIntersectionPointIn ws start = None"
    by (simp add: findNearest_one_loop)
next
  assume res: "findNearestIntersectionPointIn ws start = Some p"
  let ?os = "ws @ borders" and ?ex = "expandLine start"
  show "\<exists>w \<in> set ?os. findLineSegmentIntersection ?ex w = Some p"
  proof (cases "\<exists>w \<in> set ?os. \<exists>q. findLineSegmentIntersection ?ex w = Some q
                  \<and> pointDistance (point1 start) q < INT64_MAX_double")
    case True
    from evaluateAll_nearest [OF True, of None] obtain pre w post p' where
      "?os = pre @ w # post"
      "evaluateAll start ?ex ?os (None, INT64_MAX_double) = (Some p', pointDistance (point1 start) p')"
      "findLineSegmentIntersection ?ex w = Some p'"
      by blast
    with res show ?thesis
      by (auto simp add: findNearest_one_loop)
  next
    case False
    then have "evaluateAll start ?ex ?os (None, INT64_MAX_double) = (None, INT64_MAX_double)"
      by (intro evaluateAll_no_closer) blast
    with res show ?thesis
      by (simp add: findNearest_one_loop)
  qed
qed

lemma east_of_the_border_no_hit:
  "\<forall>w \<in> set (walls @ borders).
     findLineSegmentIntersection (expandLine (Line (Point 2 0) (Point 3 0))) w = None"
  by (simp add: walls_def borders_def evaluate_expand evaluate_intersection)

lemma from_centre_east:
  "findNearestIntersectionPointIn [] (Line (Point 0 0) (Point 1 0)) = Some (Point (11/10) 0)"
  by (simp add: findNearestIntersectionPointIn_def borders_def evaluate_expand evaluate_intersection
      evaluateIntersection_def INT64_MAX_double_def dist_less_const dist_less_dist)

theorem no_hit_is_indeterminate_witness:
  "findNearestIntersectionPoint (Line (Point 2 0) (Point 3 0)) = None
   \<and> findNearestIntersectionPointIn [] (Line (Point 0 0) (Point 1 0)) = Some (Point (11/10) 0)
   \<and> (\<exists>w \<in> set ([] @ borders).
        findLineSegmentIntersection (expandLine (Line (Point 0 0) (Point 1 0))) w = Some (Point (11/10) 0))"
  using no_hit_is_indeterminate [of walls "Line (Point 2 0) (Point 3 0)"]
    no_hit_is_indeterminate [of "[]" "Line (Point 0 0) (Point 1 0)" "Point (11/10) 0"]
    east_of_the_border_no_hit from_centre_east
  by (simp add: findNearestIntersectionPoint_def)

section \<open>The border encloses the screen, in exact arithmetic\<close>

text \<open>The intersection test against each side of the square, when the segment crosses
  the side's line between the side's ends.\<close>

lemma cross_north:
  assumes "0 < c" "y1 < Y" "y1 < c" "c \<le> Y"
    and "t = (c - y1) / (Y - y1)"
    and "- c \<le> x1 + t * (X - x1)" "x1 + t * (X - x1) \<le> c"
  shows "findLineSegmentIntersection (Line (Point x1 y1) (Point X Y))
           (Line (Point (- c) c) (Point c c))
         = Some (Point (x1 + t * (X - x1)) c)"
proof -
  let ?A = "Line (Point x1 y1) (Point X Y)"
  let ?B = "Line (Point (- c) c) (Point c c)"
  have pt: "param_t ?A ?B = Finite t"
    using assms(1,2) by (simp add: param_t_def fdiv_def denominator_def assms(5) field_simps)
  have pu: "param_u ?A ?B = Finite ((x1 + t * (X - x1) + c) / (2 * c))"
    using assms(1,2) by (simp add: param_u_def fdiv_def denominator_def assms(5) field_simps)
  have t01: "0 \<le> t" "t \<le> 1"
    using assms(2-4) by (simp_all add: assms(5) field_simps)
  have y: "y1 + t * (Y - y1) = c"
    using assms(2) by (simp add: assms(5))
  have u01: "0 \<le> (x1 + t * (X - x1) + c) / (2 * c)" "(x1 + t * (X - x1) + c) / (2 * c) \<le> 1"
    using assms(1,6,7) by (simp_all add: field_simps)
  from intersection_finite [OF pt pu] t01 u01 y show ?thesis
    by (simp add: pointAt_def)
qed

lemma cross_south:
  assumes "0 < c" "Y < y1" "- c < y1" "Y \<le> - c"
    and "t = (- c - y1) / (Y - y1)"
    and "- c \<le> x1 + t * (X - x1)" "x1 + t * (X - x1) \<le> c"
  shows "findLineSegmentIntersection (Line (Point x1 y1) (Point X Y))
           (Line (Point (- c) (- c)) (Point c (- c)))
         = Some (Point (x1 + t * (X - x1)) (- c))"
proof -
  let ?A = "Line (Point x1 y1) (Point X Y)"
  let ?B = "Line (Point (- c) (- c)) (Point c (- c))"
  have pt: "param_t ?A ?B = Finite t"
    using assms(1,2) by (simp add: param_t_def fdiv_def denominator_def assms(5) field_simps)
  have pu: "param_u ?A ?B = Finite ((x1 + t * (X - x1) + c) / (2 * c))"
    using assms(1,2) by (simp add: param_u_def fdiv_def denominator_def assms(5) field_simps)
  have t01: "0 \<le> t" "t \<le> 1"
    using assms(2-4) by (simp_all add: assms(5) field_simps)
  have y: "y1 + t * (Y - y1) = - c"
    using assms(2) by (simp add: assms(5))
  have u01: "0 \<le> (x1 + t * (X - x1) + c) / (2 * c)" "(x1 + t * (X - x1) + c) / (2 * c) \<le> 1"
    using assms(1,6,7) by (simp_all add: field_simps)
  from intersection_finite [OF pt pu] t01 u01 y show ?thesis
    by (simp add: pointAt_def)
qed

lemma cross_east:
  assumes "0 < c" "x1 < X" "x1 < c" "c \<le> X"
    and "t = (c - x1) / (X - x1)"
    and "- c \<le> y1 + t * (Y - y1)" "y1 + t * (Y - y1) \<le> c"
  shows "findLineSegmentIntersection (Line (Point x1 y1) (Point X Y))
           (Line (Point c c) (Point c (- c)))
         = Some (Point c (y1 + t * (Y - y1)))"
proof -
  let ?A = "Line (Point x1 y1) (Point X Y)"
  let ?B = "Line (Point c c) (Point c (- c))"
  have pt: "param_t ?A ?B = Finite t"
    using assms(1,2) by (simp add: param_t_def fdiv_def denominator_def assms(5) field_simps)
  have pu: "param_u ?A ?B = Finite ((c - (y1 + t * (Y - y1))) / (2 * c))"
    using assms(1,2) by (simp add: param_u_def fdiv_def denominator_def assms(5) field_simps)
  have t01: "0 \<le> t" "t \<le> 1"
    using assms(2-4) by (simp_all add: assms(5) field_simps)
  have x: "x1 + t * (X - x1) = c"
    using assms(2) by (simp add: assms(5))
  have u01: "0 \<le> (c - (y1 + t * (Y - y1))) / (2 * c)" "(c - (y1 + t * (Y - y1))) / (2 * c) \<le> 1"
    using assms(1,6,7) by (simp_all add: field_simps)
  from intersection_finite [OF pt pu] t01 u01 x show ?thesis
    by (simp add: pointAt_def)
qed

lemma cross_west:
  assumes "0 < c" "X < x1" "- c < x1" "X \<le> - c"
    and "t = (- c - x1) / (X - x1)"
    and "- c \<le> y1 + t * (Y - y1)" "y1 + t * (Y - y1) \<le> c"
  shows "findLineSegmentIntersection (Line (Point x1 y1) (Point X Y))
           (Line (Point (- c) c) (Point (- c) (- c)))
         = Some (Point (- c) (y1 + t * (Y - y1)))"
proof -
  let ?A = "Line (Point x1 y1) (Point X Y)"
  let ?B = "Line (Point (- c) c) (Point (- c) (- c))"
  have pt: "param_t ?A ?B = Finite t"
    using assms(1,2) by (simp add: param_t_def fdiv_def denominator_def assms(5) field_simps)
  have pu: "param_u ?A ?B = Finite ((c - (y1 + t * (Y - y1))) / (2 * c))"
    using assms(1,2) by (simp add: param_u_def fdiv_def denominator_def assms(5) field_simps)
  have t01: "0 \<le> t" "t \<le> 1"
    using assms(2-4) by (simp_all add: assms(5) field_simps)
  have x: "x1 + t * (X - x1) = - c"
    using assms(2) by (simp add: assms(5))
  have u01: "0 \<le> (c - (y1 + t * (Y - y1))) / (2 * c)" "(c - (y1 + t * (Y - y1))) / (2 * c) \<le> 1"
    using assms(1,6,7) by (simp_all add: field_simps)
  from intersection_finite [OF pt pu] t01 u01 x show ?thesis
    by (simp add: pointAt_def)
qed

text \<open>A segment from strictly inside the square to a point to the right of it meets
  the east side, or before that the north or the south side; likewise to the left,
  upwards and downwards.\<close>

lemma exits_right:
  assumes c: "0 < c" and x1: "\<bar>x1\<bar> < c" and y1: "\<bar>y1\<bar> < c" and X: "c < X"
  shows "\<exists>b \<in> set (rectangle c). \<exists>q.
           findLineSegmentIntersection (Line (Point x1 y1) (Point X Y)) b = Some q
           \<and> \<bar>px q\<bar> \<le> c \<and> \<bar>py q\<bar> \<le> c"
proof -
  define t where "t = (c - x1) / (X - x1)"
  define yE where "yE = y1 + t * (Y - y1)"
  have dx: "0 < X - x1" using x1 X by simp
  have t0: "0 < t" using x1 dx by (simp add: t_def)
  have t1: "t \<le> 1" using X dx by (simp add: t_def)
  have tdx: "t * (X - x1) = c - x1" using dx by (simp add: t_def)
  consider "- c \<le> yE \<and> yE \<le> c" | "c < yE" | "yE < - c"
    by linarith
  then show ?thesis
  proof cases
    case 1
    have "findLineSegmentIntersection (Line (Point x1 y1) (Point X Y)) (Line (Point c c) (Point c (- c)))
        = Some (Point c (y1 + t * (Y - y1)))"
      using c dx x1 X 1 by (intro cross_east) (simp_all add: t_def yE_def)
    moreover have "Line (Point c c) (Point c (- c)) \<in> set (rectangle c)"
      by (simp add: rectangle_def)
    ultimately show ?thesis
      using 1 c by (intro bexI [of _ "Line (Point c c) (Point c (- c))"]) (auto simp add: yE_def)
  next
    case 2
    then have prod: "c - y1 < t * (Y - y1)" by (simp add: yE_def)
    have dy: "0 < Y - y1"
    proof (rule ccontr)
      assume "\<not> 0 < Y - y1"
      then have "t * (Y - y1) \<le> 0"
        using t0 by (simp add: mult_nonneg_nonpos)
      with prod y1 show False by simp
    qed
    have "t * (Y - y1) \<le> 1 * (Y - y1)"
      using t1 dy by (intro mult_right_mono) simp_all
    with prod have Y: "c \<le> Y" by simp
    define s where "s = (c - y1) / (Y - y1)"
    have s0: "0 \<le> s" using y1 dy by (simp add: s_def)
    have st: "s \<le> t" using prod dy by (simp add: s_def pos_divide_le_eq)
    have "s * (X - x1) \<le> t * (X - x1)"
      using st dx by (intro mult_right_mono) simp_all
    moreover have "0 \<le> s * (X - x1)"
      using s0 dx by simp
    ultimately have xs: "- c \<le> x1 + s * (X - x1)" "x1 + s * (X - x1) \<le> c"
      using tdx x1 by simp_all
    have "findLineSegmentIntersection (Line (Point x1 y1) (Point X Y)) (Line (Point (- c) c) (Point c c))
        = Some (Point (x1 + s * (X - x1)) c)"
      using c dy y1 Y xs by (intro cross_north) (simp_all add: s_def)
    moreover have "Line (Point (- c) c) (Point c c) \<in> set (rectangle c)"
      by (simp add: rectangle_def)
    ultimately show ?thesis
      using xs c by (intro bexI [of _ "Line (Point (- c) c) (Point c c)"]) auto
  next
    case 3
    then have prod: "t * (Y - y1) < - c - y1" by (simp add: yE_def)
    have dy: "Y - y1 < 0"
    proof (rule ccontr)
      assume "\<not> Y - y1 < 0"
      then have "0 \<le> t * (Y - y1)"
        using t0 by simp
      with prod y1 show False by simp
    qed
    have "1 * (Y - y1) \<le> t * (Y - y1)"
      using t1 dy by (intro mult_right_mono_neg) simp_all
    with prod have Y: "Y \<le> - c" by simp
    define s where "s = (- c - y1) / (Y - y1)"
    have s0: "0 \<le> s" using y1 dy by (simp add: s_def zero_le_divide_iff)
    have st: "s \<le> t" using prod dy by (simp add: s_def neg_divide_le_eq)
    have "s * (X - x1) \<le> t * (X - x1)"
      using st dx by (intro mult_right_mono) simp_all
    moreover have "0 \<le> s * (X - x1)"
      using s0 dx by simp
    ultimately have xs: "- c \<le> x1 + s * (X - x1)" "x1 + s * (X - x1) \<le> c"
      using tdx x1 by simp_all
    have "findLineSegmentIntersection (Line (Point x1 y1) (Point X Y)) (Line (Point (- c) (- c)) (Point c (- c)))
        = Some (Point (x1 + s * (X - x1)) (- c))"
      using c dy y1 Y xs by (intro cross_south) (simp_all add: s_def)
    moreover have "Line (Point (- c) (- c)) (Point c (- c)) \<in> set (rectangle c)"
      by (simp add: rectangle_def)
    ultimately show ?thesis
      using xs c by (intro bexI [of _ "Line (Point (- c) (- c)) (Point c (- c))"]) auto
  qed
qed

lemma exits_left:
  assumes c: "0 < c" and x1: "\<bar>x1\<bar> < c" and y1: "\<bar>y1\<bar> < c" and X: "X < - c"
  shows "\<exists>b \<in> set (rectangle c). \<exists>q.
           findLineSegmentIntersection (Line (Point x1 y1) (Point X Y)) b = Some q
           \<and> \<bar>px q\<bar> \<le> c \<and> \<bar>py q\<bar> \<le> c"
proof -
  define t where "t = (- c - x1) / (X - x1)"
  define yW where "yW = y1 + t * (Y - y1)"
  have dx: "X - x1 < 0" using x1 X by simp
  have t0: "0 < t" using x1 dx by (simp add: t_def zero_less_divide_iff)
  have t1: "t \<le> 1" using X dx by (simp add: t_def neg_divide_le_eq)
  have tdx: "t * (X - x1) = - c - x1" using dx by (simp add: t_def)
  consider "- c \<le> yW \<and> yW \<le> c" | "c < yW" | "yW < - c"
    by linarith
  then show ?thesis
  proof cases
    case 1
    have "findLineSegmentIntersection (Line (Point x1 y1) (Point X Y)) (Line (Point (- c) c) (Point (- c) (- c)))
        = Some (Point (- c) (y1 + t * (Y - y1)))"
      using c dx x1 X 1 by (intro cross_west) (simp_all add: t_def yW_def)
    moreover have "Line (Point (- c) c) (Point (- c) (- c)) \<in> set (rectangle c)"
      by (simp add: rectangle_def)
    ultimately show ?thesis
      using 1 c by (intro bexI [of _ "Line (Point (- c) c) (Point (- c) (- c))"]) (auto simp add: yW_def)
  next
    case 2
    then have prod: "c - y1 < t * (Y - y1)" by (simp add: yW_def)
    have dy: "0 < Y - y1"
    proof (rule ccontr)
      assume "\<not> 0 < Y - y1"
      then have "t * (Y - y1) \<le> 0"
        using t0 by (simp add: mult_nonneg_nonpos)
      with prod y1 show False by simp
    qed
    have "t * (Y - y1) \<le> 1 * (Y - y1)"
      using t1 dy by (intro mult_right_mono) simp_all
    with prod have Y: "c \<le> Y" by simp
    define s where "s = (c - y1) / (Y - y1)"
    have s0: "0 \<le> s" using y1 dy by (simp add: s_def)
    have st: "s \<le> t" using prod dy by (simp add: s_def pos_divide_le_eq)
    have "t * (X - x1) \<le> s * (X - x1)"
      using st dx by (intro mult_right_mono_neg) simp_all
    moreover have "s * (X - x1) \<le> 0"
      using s0 dx by (simp add: mult_nonneg_nonpos)
    ultimately have xs: "- c \<le> x1 + s * (X - x1)" "x1 + s * (X - x1) \<le> c"
      using tdx x1 by simp_all
    have "findLineSegmentIntersection (Line (Point x1 y1) (Point X Y)) (Line (Point (- c) c) (Point c c))
        = Some (Point (x1 + s * (X - x1)) c)"
      using c dy y1 Y xs by (intro cross_north) (simp_all add: s_def)
    moreover have "Line (Point (- c) c) (Point c c) \<in> set (rectangle c)"
      by (simp add: rectangle_def)
    ultimately show ?thesis
      using xs c by (intro bexI [of _ "Line (Point (- c) c) (Point c c)"]) auto
  next
    case 3
    then have prod: "t * (Y - y1) < - c - y1" by (simp add: yW_def)
    have dy: "Y - y1 < 0"
    proof (rule ccontr)
      assume "\<not> Y - y1 < 0"
      then have "0 \<le> t * (Y - y1)"
        using t0 by simp
      with prod y1 show False by simp
    qed
    have "1 * (Y - y1) \<le> t * (Y - y1)"
      using t1 dy by (intro mult_right_mono_neg) simp_all
    with prod have Y: "Y \<le> - c" by simp
    define s where "s = (- c - y1) / (Y - y1)"
    have s0: "0 \<le> s" using y1 dy by (simp add: s_def zero_le_divide_iff)
    have st: "s \<le> t" using prod dy by (simp add: s_def neg_divide_le_eq)
    have "t * (X - x1) \<le> s * (X - x1)"
      using st dx by (intro mult_right_mono_neg) simp_all
    moreover have "s * (X - x1) \<le> 0"
      using s0 dx by (simp add: mult_nonneg_nonpos)
    ultimately have xs: "- c \<le> x1 + s * (X - x1)" "x1 + s * (X - x1) \<le> c"
      using tdx x1 by simp_all
    have "findLineSegmentIntersection (Line (Point x1 y1) (Point X Y)) (Line (Point (- c) (- c)) (Point c (- c)))
        = Some (Point (x1 + s * (X - x1)) (- c))"
      using c dy y1 Y xs by (intro cross_south) (simp_all add: s_def)
    moreover have "Line (Point (- c) (- c)) (Point c (- c)) \<in> set (rectangle c)"
      by (simp add: rectangle_def)
    ultimately show ?thesis
      using xs c by (intro bexI [of _ "Line (Point (- c) (- c)) (Point c (- c))"]) auto
  qed
qed

lemma between:
  fixes s :: real
  assumes "0 \<le> s" "s \<le> 1" "\<bar>a\<bar> \<le> c" "\<bar>b\<bar> \<le> c"
  shows "- c \<le> a + s * (b - a)" "a + s * (b - a) \<le> c"
proof -
  have eq: "a + s * (b - a) = (1 - s) * a + s * b"
    by (simp add: algebra_simps)
  have "(1 - s) * a \<le> (1 - s) * c" "s * b \<le> s * c"
    using assms by (simp_all add: mult_left_mono)
  then show "a + s * (b - a) \<le> c"
    unfolding eq by (simp add: algebra_simps)
  have "(1 - s) * (- c) \<le> (1 - s) * a" "s * (- c) \<le> s * b"
    using assms by (intro mult_left_mono; simp)+
  then show "- c \<le> a + s * (b - a)"
    unfolding eq by (simp add: algebra_simps)
qed

lemma exits_up:
  assumes c: "0 < c" and x1: "\<bar>x1\<bar> < c" and y1: "\<bar>y1\<bar> < c" and X: "\<bar>X\<bar> \<le> c" and Y: "c < Y"
  shows "\<exists>b \<in> set (rectangle c). \<exists>q.
           findLineSegmentIntersection (Line (Point x1 y1) (Point X Y)) b = Some q
           \<and> \<bar>px q\<bar> \<le> c \<and> \<bar>py q\<bar> \<le> c"
proof -
  define s where "s = (c - y1) / (Y - y1)"
  have dy: "0 < Y - y1" using y1 Y by simp
  have s0: "0 \<le> s" using y1 dy by (simp add: s_def)
  have s1: "s \<le> 1" using Y dy by (simp add: s_def)
  have xs: "- c \<le> x1 + s * (X - x1)" "x1 + s * (X - x1) \<le> c"
    using between [OF s0 s1, of x1 c X] x1 X by simp_all
  have "findLineSegmentIntersection (Line (Point x1 y1) (Point X Y)) (Line (Point (- c) c) (Point c c))
      = Some (Point (x1 + s * (X - x1)) c)"
    using c dy y1 Y xs by (intro cross_north) (simp_all add: s_def)
  moreover have "Line (Point (- c) c) (Point c c) \<in> set (rectangle c)"
    by (simp add: rectangle_def)
  ultimately show ?thesis
    using xs c by (intro bexI [of _ "Line (Point (- c) c) (Point c c)"]) auto
qed

lemma exits_down:
  assumes c: "0 < c" and x1: "\<bar>x1\<bar> < c" and y1: "\<bar>y1\<bar> < c" and X: "\<bar>X\<bar> \<le> c" and Y: "Y < - c"
  shows "\<exists>b \<in> set (rectangle c). \<exists>q.
           findLineSegmentIntersection (Line (Point x1 y1) (Point X Y)) b = Some q
           \<and> \<bar>px q\<bar> \<le> c \<and> \<bar>py q\<bar> \<le> c"
proof -
  define s where "s = (- c - y1) / (Y - y1)"
  have dy: "Y - y1 < 0" using y1 Y by simp
  have s0: "0 \<le> s" using y1 dy by (simp add: s_def zero_le_divide_iff)
  have s1: "s \<le> 1" using Y dy by (simp add: s_def neg_divide_le_eq)
  have xs: "- c \<le> x1 + s * (X - x1)" "x1 + s * (X - x1) \<le> c"
    using between [OF s0 s1, of x1 c X] x1 X by simp_all
  have "findLineSegmentIntersection (Line (Point x1 y1) (Point X Y)) (Line (Point (- c) (- c)) (Point c (- c)))
      = Some (Point (x1 + s * (X - x1)) (- c))"
    using c dy y1 Y xs by (intro cross_south) (simp_all add: s_def)
  moreover have "Line (Point (- c) (- c)) (Point c (- c)) \<in> set (rectangle c)"
    by (simp add: rectangle_def)
  ultimately show ?thesis
    using xs c by (intro bexI [of _ "Line (Point (- c) (- c)) (Point c (- c))"]) auto
qed

lemma leaves_rectangle:
  assumes "0 < c" "\<bar>x1\<bar> < c" "\<bar>y1\<bar> < c" "c < \<bar>X\<bar> \<or> c < \<bar>Y\<bar>"
  shows "\<exists>b \<in> set (rectangle c). \<exists>q.
           findLineSegmentIntersection (Line (Point x1 y1) (Point X Y)) b = Some q
           \<and> \<bar>px q\<bar> \<le> c \<and> \<bar>py q\<bar> \<le> c"
proof -
  consider "c < X" | "X < - c" | "\<bar>X\<bar> \<le> c" "c < Y" | "\<bar>X\<bar> \<le> c" "Y < - c"
    using assms(4) by linarith
  then show ?thesis
  proof cases
    case 1
    with assms show ?thesis by (intro exits_right)
  next
    case 2
    with assms show ?thesis by (intro exits_left)
  next
    case 3
    with assms show ?thesis by (intro exits_up)
  next
    case 4
    with assms show ?thesis by (intro exits_down)
  qed
qed

lemma borders_rectangle: "borders = rectangle (11/10)"
  by (simp add: borders_def rectangle_def)

lemma expandLine_start: "point1 (expandLine seg) = point1 seg"
  by (simp add: expandLine_def Let_def)

lemma expandLine_end_outside:
  "11/10 < \<bar>px (point2 (expandLine seg))\<bar> \<or> 11/10 < \<bar>py (point2 (expandLine seg))\<bar>"
  by (simp add: expandLine_def Let_def ARBITRARY_OUT_OF_BOUNDS_COORD_def)

lemma square_bound:
  fixes a :: real
  assumes "\<bar>a\<bar> \<le> b"
  shows "a * a \<le> b * b"
proof -
  have "\<bar>a\<bar> * \<bar>a\<bar> \<le> b * b"
    using assms by (intro mult_mono) simp_all
  then show ?thesis by simp
qed

lemma near_inside:
  assumes "\<bar>px a\<bar> < 11/10" "\<bar>py a\<bar> < 11/10" "\<bar>px q\<bar> \<le> 11/10" "\<bar>py q\<bar> \<le> 11/10"
  shows "pointDistance a q < INT64_MAX_double"
proof -
  have "\<bar>px q - px a\<bar> \<le> 22/10" "\<bar>py q - py a\<bar> \<le> 22/10"
    using assms by linarith+
  then have "(px q - px a) * (px q - px a) \<le> (22/10) * (22/10)"
    "(py q - py a) * (py q - py a) \<le> (22/10) * (22/10)"
    by (simp_all only: square_bound)
  then show ?thesis
    by (simp add: INT64_MAX_double_def dist_less_const)
qed

lemma border_hit_inside:
  assumes "\<bar>px (point1 start)\<bar> < 11/10" "\<bar>py (point1 start)\<bar> < 11/10"
  shows "\<exists>b \<in> set borders. \<exists>q.
           findLineSegmentIntersection (expandLine start) b = Some q
           \<and> pointDistance (point1 start) q < INT64_MAX_double"
proof -
  obtain x1 y1 X Y where ex: "expandLine start = Line (Point x1 y1) (Point X Y)"
    by (metis Line.exhaust Point.exhaust)
  have p1: "point1 start = Point x1 y1"
    using expandLine_start [of start] ex by simp
  have out: "11/10 < \<bar>X\<bar> \<or> 11/10 < \<bar>Y\<bar>"
    using expandLine_end_outside [of start] ex by simp
  have "\<exists>b \<in> set (rectangle (11/10)). \<exists>q.
           findLineSegmentIntersection (Line (Point x1 y1) (Point X Y)) b = Some q
           \<and> \<bar>px q\<bar> \<le> 11/10 \<and> \<bar>py q\<bar> \<le> 11/10"
    using assms p1 out by (intro leaves_rectangle) simp_all
  then obtain b q where b: "b \<in> set borders"
    and q: "findLineSegmentIntersection (expandLine start) b = Some q"
      "\<bar>px q\<bar> \<le> 11/10" "\<bar>py q\<bar> \<le> 11/10"
    unfolding ex borders_rectangle by blast
  from near_inside [OF assms q(2,3)] b q(1) show ?thesis
    by blast
qed

text \<open>
  In exact arithmetic, from every origin strictly inside the border rectangle of
  extent 1.1 the extended probe meets a border, whatever its direction and whatever
  the walls are, and the resolver returns the intersection with an obstacle \<open>w\<close>
  whose distance is minimal over all obstacles that meet the extended probe: the
  hits of the obstacles before \<open>w\<close> are strictly farther, those of the obstacles
  after \<open>w\<close> are at least as far.
\<close>

lemma exact_nearest_hit_inside:
  assumes "\<bar>px (point1 start)\<bar> < 11/10" "\<bar>py (point1 start)\<bar> < 11/10"
  shows "\<exists>pre w post p. ws @ borders = pre @ w # post
           \<and> findNearestIntersectionPointIn ws start = Some p
           \<and> findLineSegmentIntersection (expandLine start) w = Some p
           \<and> (\<forall>v \<in> set pre. \<forall>q. findLineSegmentIntersection (expandLine start) v = Some q
                  \<longrightarrow> pointDistance (point1 start) p < pointDistance (point1 start) q)
           \<and> (\<forall>v \<in> set post. \<forall>q. findLineSegmentIntersection (expandLine start) v = Some q
                  \<longrightarrow> pointDistance (point1 start) p \<le> pointDistance (point1 start) q)"
proof -
  from border_hit_inside [OF assms] have "\<exists>w \<in> set (ws @ borders). \<exists>q.
      findLineSegmentIntersection (expandLine start) w = Some q
      \<and> pointDistance (point1 start) q < INT64_MAX_double"
    by auto
  from evaluateAll_nearest [OF this, of None] obtain pre w post p where
    "ws @ borders = pre @ w # post"
    "evaluateAll start (expandLine start) (ws @ borders) (None, INT64_MAX_double)
       = (Some p, pointDistance (point1 start) p)"
    "findLineSegmentIntersection (expandLine start) w = Some p"
    "\<forall>v \<in> set pre. \<forall>q. findLineSegmentIntersection (expandLine start) v = Some q
        \<longrightarrow> pointDistance (point1 start) p < pointDistance (point1 start) q"
    "\<forall>v \<in> set post. \<forall>q. findLineSegmentIntersection (expandLine start) v = Some q
        \<longrightarrow> pointDistance (point1 start) p \<le> pointDistance (point1 start) q"
    by blast
  then show ?thesis
    unfolding findNearest_one_loop by (intro exI [of _ pre] exI [of _ w] exI [of _ post] exI [of _ p]) simp
qed

text \<open>The loop as a fold over the results of the intersection test.\<close>

lemma evaluateAll_foldl:
  "evaluateAll start ex ws s =
     foldl (\<lambda>s h. case h of None \<Rightarrow> s
                   | Some q \<Rightarrow> if pointDistance (point1 start) q < snd s
                       then (Some q, pointDistance (point1 start) q) else s)
       s (map (findLineSegmentIntersection ex) ws)"
  by (induction ws arbitrary: s) (simp_all add: evaluateIntersection_def)

section \<open>The end-to-end scenario\<close>

text \<open>
  The program's \<open>PI\<close> is not \<open>\<pi>\<close>, so the second and the fourth ray are not exactly
  vertical and the third is not exactly horizontal; they are within the \<^verbatim>\<open>10e-7\<close>
  of \<^verbatim>\<open>expandLine\<close>. That needs \<open>\<pi>\<close> to five decimals, from the sine series at
  \<open>\<pi> / 6\<close>.
\<close>

lemma sum_less_9:
  fixes f :: "nat \<Rightarrow> real"
  shows "(\<Sum>m<9. f m) = f 0 + f 1 + f 2 + f 3 + f 4 + f 5 + f 6 + f 7 + f 8"
  by (simp add: eval_nat_numeral)

lemma sin_coeffs:
  "sin_coeff 0 = 0" "sin_coeff 1 = 1" "sin_coeff 2 = 0" "sin_coeff 3 = - 1 / 6"
  "sin_coeff 4 = 0" "sin_coeff 5 = 1 / 120" "sin_coeff 6 = 0" "sin_coeff 7 = - 1 / 5040"
  "sin_coeff 8 = 0"
  by (simp_all add: sin_coeff_def fact_numeral)

lemma sin_coeff_1: "sin_coeff (Suc 0) = 1"
  by (simp add: sin_coeff_def)

lemma sin_poly_bound:
  fixes x :: real
  shows "\<bar>sin x - (x - x ^ 3 / 6 + x ^ 5 / 120 - x ^ 7 / 5040)\<bar> \<le> \<bar>x\<bar> ^ 9 / 362880"
proof -
  have poly: "(\<Sum>m<9. sin_coeff m * x ^ m) = x - x ^ 3 / 6 + x ^ 5 / 120 - x ^ 7 / 5040"
    by (simp add: sum_less_9 sin_coeffs sin_coeff_1)
  have f: "fact 9 = (362880 :: real)"
    by (simp add: fact_numeral)
  from Maclaurin_sin_bound [of x 9] show ?thesis
    unfolding poly f by (simp add: field_simps)
qed

lemma pi_lower: "314159 / 100000 < pi"
proof -
  let ?a = "314159 / 600000 :: real"
  have "sin ?a \<le> (?a - ?a ^ 3 / 6 + ?a ^ 5 / 120 - ?a ^ 7 / 5040) + \<bar>?a\<bar> ^ 9 / 362880"
    using sin_poly_bound [of ?a] by linarith
  also have "\<dots> < 1 / 2"
    by (simp add: power_divide)
  finally have "sin ?a < sin (pi / 6)"
    by (simp add: sin_30)
  moreover have "- (pi / 2) \<le> ?a" "?a \<le> pi / 2" "- (pi / 2) \<le> pi / 6" "pi / 6 \<le> pi / 2"
    using pi_ge_two by simp_all
  ultimately have "?a < pi / 6"
    by (simp only: sin_mono_less_eq)
  then show ?thesis by simp
qed

lemma pi_upper: "pi < 31416 / 10000"
proof -
  let ?b = "1309 / 2500 :: real"
  have "1 / 2 < (?b - ?b ^ 3 / 6 + ?b ^ 5 / 120 - ?b ^ 7 / 5040) - \<bar>?b\<bar> ^ 9 / 362880"
    by (simp add: power_divide)
  also have "\<dots> \<le> sin ?b"
    using sin_poly_bound [of ?b] by linarith
  finally have "sin (pi / 6) < sin ?b"
    by (simp add: sin_30)
  moreover have "- (pi / 2) \<le> ?b" "?b \<le> pi / 2" "- (pi / 2) \<le> pi / 6" "pi / 6 \<le> pi / 2"
    using pi_ge_two by simp_all
  ultimately have "pi / 6 < ?b"
    by (simp only: sin_mono_less_eq)
  then show ?thesis by simp
qed

text \<open>The sines and cosines at the quarter turns of the program.\<close>

lemma PI_near_pi: "\<bar>PI - pi\<bar> < 1 / 100000"
  using pi_lower pi_upper unfolding PI_def by linarith

lemma PI_bounds: "3 < PI" "PI < 4"
  by (simp_all add: PI_def)

lemma quarter_turn: "\<bar>cos (PI / 2)\<bar> < 1 / 50000" "0 < sin (PI / 2)"
proof -
  have "\<bar>cos (PI / 2)\<bar> = \<bar>sin (pi / 2 - PI / 2)\<bar>"
    by (simp add: cos_sin_eq [of "PI / 2"])
  also have "\<dots> \<le> \<bar>pi / 2 - PI / 2\<bar>"
    by (rule abs_sin_x_le_abs_x)
  also have "\<dots> < 1 / 50000"
    using PI_near_pi by linarith
  finally show "\<bar>cos (PI / 2)\<bar> < 1 / 50000" .
  show "0 < sin (PI / 2)"
    using PI_bounds pi_ge_two by (intro sin_gt_zero; linarith)
qed

lemma half_turn: "cos PI < - (1 / 2)" "\<bar>sin PI\<bar> < 1 / 100000"
proof -
  have s: "\<bar>sin (pi - PI)\<bar> < 1 / 100000"
    using abs_sin_x_le_abs_x [of "pi - PI"] PI_near_pi by linarith
  then show "\<bar>sin PI\<bar> < 1 / 100000"
    by simp
  have pos: "0 < cos (pi - PI)"
    using PI_near_pi pi_ge_two by (intro cos_gt_zero_pi; linarith)
  have "\<bar>sin (pi - PI)\<bar>\<^sup>2 < (1 / 100000)\<^sup>2"
    using s by (intro power_strict_mono) simp_all
  then have "(sin (pi - PI))\<^sup>2 < (1 / 100000)\<^sup>2"
    by simp
  then have sq: "3 / 4 < (cos (pi - PI))\<^sup>2"
    by (simp add: cos_squared_eq power_divide)
  have "1 / 2 < cos (pi - PI)"
  proof (rule ccontr)
    assume "\<not> 1 / 2 < cos (pi - PI)"
    with pos have "cos (pi - PI) * cos (pi - PI) \<le> (1 / 2) * (1 / 2)"
      by (intro mult_mono) simp_all
    with sq show False
      by (simp add: power2_eq_square)
  qed
  then show "cos PI < - (1 / 2)"
    by simp
qed

lemma three_quarter_turn: "\<bar>cos (3 * PI / 2)\<bar> < 1 / 50000" "sin (3 * PI / 2) < 0"
proof -
  define e where "e = 3 * PI / 2 - 3 * pi / 2"
  have "3 * PI / 2 = 3 * pi / 2 + e"
    unfolding e_def by linarith
  then have eq: "3 * PI / 2 = 3 / 2 * pi + e"
    by simp
  have "cos (3 / 2 * pi + e) = 0 * cos e - (- 1) * sin e"
    by (simp only: cos_add cos_3over2_pi sin_3over2_pi)
  then have "cos (3 * PI / 2) = sin e"
    unfolding eq by simp
  then have "\<bar>cos (3 * PI / 2)\<bar> \<le> \<bar>e\<bar>"
    by (simp only: abs_sin_x_le_abs_x)
  also have "\<dots> < 1 / 50000"
    using PI_near_pi unfolding e_def by linarith
  finally show "\<bar>cos (3 * PI / 2)\<bar> < 1 / 50000" .
  show "sin (3 * PI / 2) < 0"
    using PI_near_pi pi_ge_two pi_less_4 by (intro sin_lt_zero; linarith)
qed

text \<open>The axis-parallel branches of \<^verbatim>\<open>expandLine\<close>.\<close>

lemma expand_up:
  "\<bar>px p2 - px p1\<bar> < 1 / 1000000 \<Longrightarrow> \<not> py p2 < py p1 \<Longrightarrow>
   expandLine (Line p1 p2) = Line p1 (Point (px p1) 32767)"
  by (simp add: evaluate_expand)

lemma expand_down:
  "\<bar>px p2 - px p1\<bar> < 1 / 1000000 \<Longrightarrow> py p2 < py p1 \<Longrightarrow>
   expandLine (Line p1 p2) = Line p1 (Point (px p1) (- 32767))"
  by (simp add: evaluate_expand)

lemma expand_right:
  "1 / 1000000 \<le> \<bar>px p2 - px p1\<bar> \<Longrightarrow> \<bar>py p2 - py p1\<bar> < 1 / 1000000 \<Longrightarrow> \<not> px p2 < px p1 \<Longrightarrow>
   expandLine (Line p1 p2) = Line p1 (Point 32767 (py p1))"
  by (simp add: evaluate_expand)

lemma expand_left:
  "1 / 1000000 \<le> \<bar>px p2 - px p1\<bar> \<Longrightarrow> \<bar>py p2 - py p1\<bar> < 1 / 1000000 \<Longrightarrow> px p2 < px p1 \<Longrightarrow>
   expandLine (Line p1 p2) = Line p1 (Point (- 32767) (py p1))"
  by (simp add: evaluate_expand)

text \<open>The resolver from the centre of the screen, with no wall.\<close>

lemma nearest_by_fold:
  "findNearestIntersectionPointIn ws start =
     fst (foldl (\<lambda>s h. case h of None \<Rightarrow> s
                   | Some q \<Rightarrow> if pointDistance (point1 start) q < snd s
                       then (Some q, pointDistance (point1 start) q) else s)
            (None, INT64_MAX_double)
            (map (findLineSegmentIntersection (expandLine start)) (ws @ borders)))"
  by (simp add: findNearest_one_loop evaluateAll_foldl)

lemma border_hits_from_centre:
  "map (findLineSegmentIntersection (Line (Point 0 0) (Point 32767 0))) borders
     = [None, Some (Point (11/10) 0), None, None]"
  "map (findLineSegmentIntersection (Line (Point 0 0) (Point 0 32767))) borders
     = [Some (Point 0 (11/10)), None, None, None]"
  "map (findLineSegmentIntersection (Line (Point 0 0) (Point (- 32767) 0))) borders
     = [None, None, None, Some (Point (- 11/10) 0)]"
  "map (findLineSegmentIntersection (Line (Point 0 0) (Point 0 (- 32767)))) borders
     = [None, None, Some (Point 0 (- 11/10)), None]"
  by (simp_all add: borders_def evaluate_intersection)

lemma nearest_from_centre:
  assumes "point1 start = Point 0 0"
  shows "expandLine start = Line (Point 0 0) (Point 32767 0)
           \<Longrightarrow> findNearestIntersectionPointIn [] start = Some (Point (11/10) 0)"
    and "expandLine start = Line (Point 0 0) (Point 0 32767)
           \<Longrightarrow> findNearestIntersectionPointIn [] start = Some (Point 0 (11/10))"
    and "expandLine start = Line (Point 0 0) (Point (- 32767) 0)
           \<Longrightarrow> findNearestIntersectionPointIn [] start = Some (Point (- 11/10) 0)"
    and "expandLine start = Line (Point 0 0) (Point 0 (- 32767))
           \<Longrightarrow> findNearestIntersectionPointIn [] start = Some (Point 0 (- 11/10))"
  using assms
  by (simp_all add: nearest_by_fold border_hits_from_centre INT64_MAX_double_def dist_less_const)

lemma centre: "normalizeMonitorCoordinates 960 540 = Point 0 0"
  by (simp add: normalizeMonitorCoordinates_def MONITOR_SIZE_X_def MONITOR_SIZE_Y_def)

lemma ray_east:
  "castRay [] (Point 0 0) (Finite (2 * PI / 4)) 0 = Segment (Point 0 0) (Some (Point (11/10) 0))"
proof -
  let ?start = "Line (Point 0 0) (onCircumference (Point 0 0) (2 * PI / 4) 0)"
  have p: "onCircumference (Point 0 0) (2 * PI / 4) 0 = Point (1/20) 0"
    by (simp add: onCircumference_def CIRCLE_RADIUS_def)
  have "expandLine ?start = Line (Point 0 0) (Point 32767 0)"
    unfolding p by (simp add: evaluate_expand)
  then have "findNearestIntersectionPointIn [] ?start = Some (Point (11/10) 0)"
    by (intro nearest_from_centre) simp_all
  then show ?thesis
    by (simp add: castRay_def)
qed

lemma ray_north:
  "castRay [] (Point 0 0) (Finite (2 * PI / 4)) 1 = Segment (Point 0 0) (Some (Point 0 (11/10)))"
proof -
  let ?p = "onCircumference (Point 0 0) (2 * PI / 4) 1"
  have p: "?p = Point (1/20 * cos (PI / 2)) (1/20 * (1920/1080) * sin (PI / 2))"
    by (simp add: onCircumference_def CIRCLE_RADIUS_def monitor_widescreen_compensation_def
        MONITOR_SIZE_X_def MONITOR_SIZE_Y_def)
  have "\<bar>px ?p - px (Point 0 0)\<bar> < 1 / 1000000" "\<not> py ?p < py (Point 0 0)"
    unfolding p using quarter_turn by (simp_all add: abs_mult not_less)
  then have "expandLine (Line (Point 0 0) ?p) = Line (Point 0 0) (Point 0 32767)"
    using expand_up [of ?p "Point 0 0"] by simp
  then have "findNearestIntersectionPointIn [] (Line (Point 0 0) ?p) = Some (Point 0 (11/10))"
    by (intro nearest_from_centre) simp_all
  then show ?thesis
    by (simp add: castRay_def)
qed

lemma ray_west:
  "castRay [] (Point 0 0) (Finite (2 * PI / 4)) 2 = Segment (Point 0 0) (Some (Point (- 11/10) 0))"
proof -
  let ?p = "onCircumference (Point 0 0) (2 * PI / 4) 2"
  have p: "?p = Point (1/20 * cos PI) (1/20 * (1920/1080) * sin PI)"
    by (simp add: onCircumference_def CIRCLE_RADIUS_def monitor_widescreen_compensation_def
        MONITOR_SIZE_X_def MONITOR_SIZE_Y_def)
  have "1 / 1000000 \<le> \<bar>px ?p - px (Point 0 0)\<bar>" "\<bar>py ?p - py (Point 0 0)\<bar> < 1 / 1000000"
    "px ?p < px (Point 0 0)"
    unfolding p using half_turn by (simp_all add: abs_mult)
  then have "expandLine (Line (Point 0 0) ?p) = Line (Point 0 0) (Point (- 32767) 0)"
    using expand_left [of ?p "Point 0 0"] by simp
  then have "findNearestIntersectionPointIn [] (Line (Point 0 0) ?p) = Some (Point (- 11/10) 0)"
    by (intro nearest_from_centre) simp_all
  then show ?thesis
    by (simp add: castRay_def)
qed

lemma ray_south:
  "castRay [] (Point 0 0) (Finite (2 * PI / 4)) 3 = Segment (Point 0 0) (Some (Point 0 (- 11/10)))"
proof -
  let ?p = "onCircumference (Point 0 0) (2 * PI / 4) 3"
  have p: "?p = Point (1/20 * cos (3 * PI / 2)) (1/20 * (1920/1080) * sin (3 * PI / 2))"
    by (simp add: onCircumference_def CIRCLE_RADIUS_def monitor_widescreen_compensation_def
        MONITOR_SIZE_X_def MONITOR_SIZE_Y_def)
  have "\<bar>px ?p - px (Point 0 0)\<bar> < 1 / 1000000" "py ?p < py (Point 0 0)"
    unfolding p using three_quarter_turn by (simp_all add: abs_mult mult_less_0_iff)
  then have "expandLine (Line (Point 0 0) ?p) = Line (Point 0 0) (Point 0 (- 32767))"
    using expand_down [of ?p "Point 0 0"] by simp
  then have "findNearestIntersectionPointIn [] (Line (Point 0 0) ?p) = Some (Point 0 (- 11/10))"
    by (intro nearest_from_centre) simp_all
  then show ?thesis
    by (simp add: castRay_def)
qed

lemma four_rays:
  "rayLoop ws origin inc 4 0 =
     [castRay ws origin inc 0, castRay ws origin inc 1, castRay ws origin inc 2, castRay ws origin inc 3]"
  by (simp add: rayLoop_step rayLoop_done)

text \<open>
  C7. With the cursor at the centre of the screen (origin \<open>(0, 0)\<close>), no wall and
  a density of 4, the frame draws four rays, at the angles 0, \<open>PI / 2\<close>, \<open>PI\<close> and
  \<open>3 PI / 2\<close>, from the origin to \<open>(1.1, 0)\<close>, \<open>(0, 1.1)\<close>, \<open>(-1.1, 0)\<close> and
  \<open>(0, -1.1)\<close>: exactly so in real arithmetic.
\<close>

theorem four_rays_hit_the_border:
  "drawRaysIn [] 960 540 4 =
     [Segment (Point 0 0) (Some (Point (11/10) 0)),
      Segment (Point 0 0) (Some (Point 0 (11/10))),
      Segment (Point 0 0) (Some (Point (- 11/10) 0)),
      Segment (Point 0 0) (Some (Point 0 (- 11/10)))]"
proof -
  have "fdiv (2 * PI) 4 = Finite (2 * PI / 4)"
    by (simp add: fdiv_def)
  moreover have "int_of_double 4 = 4"
    by (simp add: int_of_double_def)
  ultimately have "drawRaysIn [] 960 540 4 = rayLoop [] (Point 0 0) (Finite (2 * PI / 4)) 4 0"
    by (simp add: drawRaysIn_def centre)
  then show ?thesis
    by (simp only: four_rays ray_east ray_north ray_west ray_south)
qed

section \<open>Properties of the ray extension, in exact arithmetic\<close>

lemma lagrange_identity:
  fixes a b c d :: real
  shows "(a\<^sup>2 + b\<^sup>2) * (c\<^sup>2 + d\<^sup>2) = (a * c + b * d)\<^sup>2 + (a * d - b * c)\<^sup>2"
  by (simp add: power2_eq_square algebra_simps)

lemma sameDirection_normalizedDot:
  assumes "sameDirection l1 l2"
  shows "normalizedDot l1 l2 = 1"
proof -
  from assms have cross: "direction_cross l1 l2 = 0" and dot: "0 < dotProduct l1 l2"
    by (simp_all add: sameDirection_def)
  have "pointDistance (point1 l1) (point2 l1) * pointDistance (point1 l2) (point2 l2)
      = sqrt ((dotProduct l1 l2)\<^sup>2 + (direction_cross l1 l2)\<^sup>2)"
    unfolding pointDistance_def real_sqrt_mult [symmetric] lagrange_identity
    by (simp add: dotProduct_def direction_cross_def)
  also have "\<dots> = dotProduct l1 l2"
    using dot by (simp add: cross)
  finally show ?thesis
    using dot by (simp add: normalizedDot_def)
qed

text \<open>The extended end is far from a start on the screen, in every branch.\<close>

lemma far_in_x: "c < \<bar>px b - px a\<bar> \<Longrightarrow> c < pointDistance a b"
  unfolding pointDistance_def by (erule less_le_trans) (rule real_sqrt_ge_abs1)

lemma far_in_y: "c < \<bar>py b - py a\<bar> \<Longrightarrow> c < pointDistance a b"
  unfolding pointDistance_def by (erule less_le_trans) (rule real_sqrt_ge_abs2)

lemma expandLine_far:
  assumes "\<bar>px (point1 seg)\<bar> \<le> 11/10" "\<bar>py (point1 seg)\<bar> \<le> 11/10"
  shows "1000 * (11/10) < pointDistance (point1 seg) (point2 (expandLine seg))"
proof -
  have "1100 < \<bar>px (point2 (expandLine seg)) - px (point1 seg)\<bar>
      \<or> 1100 < \<bar>py (point2 (expandLine seg)) - py (point1 seg)\<bar>"
    using assms by (auto simp add: evaluate_expand)
  then show ?thesis
    using far_in_x far_in_y by auto
qed

text \<open>The three branches that keep the direction.\<close>

lemma expandLine_vertical:
  assumes "\<bar>py (point1 seg)\<bar> \<le> 11/10"
    and "\<bar>px (point2 seg) - px (point1 seg)\<bar> < 10 / 10 ^ 7" "py (point2 seg) \<noteq> py (point1 seg)"
  shows "sameDirection (Line (point1 seg) (Point (px (point1 seg)) (py (point2 seg)))) (expandLine seg)"
proof (cases "py (point2 seg) < py (point1 seg)")
  case True
  then have "0 < (py (point2 seg) - py (point1 seg)) * (- 32767 - py (point1 seg))"
    using assms(1) by (intro mult_neg_neg) simp_all
  with True assms show ?thesis
    by (simp add: sameDirection_def direction_cross_def dotProduct_def evaluate_expand)
next
  case False
  then have "0 < (py (point2 seg) - py (point1 seg)) * (32767 - py (point1 seg))"
    using assms(1,3) by (intro mult_pos_pos) simp_all
  with False assms show ?thesis
    by (simp add: sameDirection_def direction_cross_def dotProduct_def evaluate_expand)
qed

lemma expandLine_horizontal:
  assumes "\<bar>px (point1 seg)\<bar> \<le> 11/10"
    and "10 / 10 ^ 7 \<le> \<bar>px (point2 seg) - px (point1 seg)\<bar>"
      "\<bar>py (point2 seg) - py (point1 seg)\<bar> < 10 / 10 ^ 7"
  shows "sameDirection (Line (point1 seg) (Point (px (point2 seg)) (py (point1 seg)))) (expandLine seg)"
proof (cases "px (point2 seg) < px (point1 seg)")
  case True
  then have "0 < (px (point2 seg) - px (point1 seg)) * (- 32767 - px (point1 seg))"
    using assms(1) by (intro mult_neg_neg) simp_all
  with True assms show ?thesis
    by (simp add: sameDirection_def direction_cross_def dotProduct_def evaluate_expand)
next
  case False
  then have "0 < (px (point2 seg) - px (point1 seg)) * (32767 - px (point1 seg))"
    using assms(1,2) by (intro mult_pos_pos) simp_all
  with False assms show ?thesis
    by (simp add: sameDirection_def direction_cross_def dotProduct_def evaluate_expand)
qed

lemma expandLine_sloped_right:
  assumes "\<bar>px (point1 seg)\<bar> \<le> 11/10"
    and "10 / 10 ^ 7 \<le> px (point2 seg) - px (point1 seg)"
      "10 / 10 ^ 7 \<le> \<bar>py (point2 seg) - py (point1 seg)\<bar>"
  shows "sameDirection seg (expandLine seg)"
proof -
  define dx where "dx = px (point2 seg) - px (point1 seg)"
  define dy where "dy = py (point2 seg) - py (point1 seg)"
  define k where "k = (32767 - px (point1 seg)) / dx"
  have dx: "0 < dx" using assms(2) by (simp add: dx_def)
  have k: "0 < k" using assms(1) dx by (simp add: k_def)
  have branch: "expandLine seg =
      Line (point1 seg)
        (Point 32767 (dy / dx * 32767 + (py (point1 seg) - dy / dx * px (point1 seg))))"
    using assms by (simp add: evaluate_expand dx_def dy_def)
  have "px (point1 seg) + k * dx = 32767"
    using dx by (simp add: k_def)
  moreover have "py (point1 seg) + k * dy
      = dy / dx * 32767 + (py (point1 seg) - dy / dx * px (point1 seg))"
    using dx by (simp add: k_def field_simps)
  ultimately have ex: "expandLine seg =
      Line (point1 seg) (Point (px (point1 seg) + k * dx) (py (point1 seg) + k * dy))"
    using branch by simp
  have "0 < k * (dx * dx + dy * dy)"
    using k dx by (intro mult_pos_pos add_pos_nonneg) simp_all
  then show ?thesis
    unfolding ex
    by (simp add: sameDirection_def direction_cross_def dotProduct_def
        dx_def [symmetric] dy_def [symmetric] algebra_simps)
qed

text \<open>
  The branch that does not: the extension of a sloped segment that points to the
  left has its vertical direction reversed, wherever the start is on the screen.
\<close>

lemma expandLine_left_mirrored:
  assumes "px (point2 seg) - px (point1 seg) \<le> - (10 / 10 ^ 7)"
    and "10 / 10 ^ 7 \<le> \<bar>py (point2 seg) - py (point1 seg)\<bar>"
    and "px (point1 seg) < 32767"
  shows "(py (point2 (expandLine seg)) - py (point1 (expandLine seg)))
           * (py (point2 seg) - py (point1 seg)) < 0"
proof -
  define dx where "dx = px (point2 seg) - px (point1 seg)"
  define dy where "dy = py (point2 seg) - py (point1 seg)"
  define x1 where "x1 = px (point1 seg)"
  have dx: "dx < 0" and dy: "dy \<noteq> 0" and x1: "0 < 32767 - x1"
    using assms by (auto simp add: dx_def dy_def x1_def)
  have lt: "px (point2 seg) < px (point1 seg)"
    using dx by (simp add: dx_def)
  have nv: "\<not> \<bar>px (point2 seg) - px (point1 seg)\<bar> < 10 / 10 ^ 7"
    using assms(1) by linarith
  have nh: "\<not> \<bar>py (point2 seg) - py (point1 seg)\<bar> < 10 / 10 ^ 7"
    using assms(2) by linarith
  have "py (point2 (expandLine seg)) - py (point1 (expandLine seg)) = dy / dx * (32767 - x1)"
    using nv nh lt
    by (simp add: expandLine_def Let_def ARBITRARY_OUT_OF_BOUNDS_COORD_def dx_def dy_def x1_def
        algebra_simps)
  then have "(py (point2 (expandLine seg)) - py (point1 (expandLine seg))) * dy
      = (dy * dy) * (32767 - x1) / dx"
    by simp
  moreover have "0 < dy * dy"
    using dy by (simp add: power2_eq_square [symmetric])
  then have "0 < (dy * dy) * (32767 - x1)"
    using x1 by (rule mult_pos_pos)
  ultimately show ?thesis
    using dx unfolding dy_def [symmetric] by (simp add: divide_pos_neg)
qed

section \<open>Rounding to double precision\<close>

text \<open>
  The rounding of a number whose binade is known: for \<open>2\<^sup>5\<^sup>2 / 2\<^sup>n \<le> \<bar>x\<bar> < 2\<^sup>5\<^sup>3 / 2\<^sup>n\<close> the
  double nearest to \<open>x\<close> is the nearest multiple of \<open>1 / 2\<^sup>n\<close>, and likewise above
  \<open>2\<^sup>5\<^sup>3\<close>. These two rules evaluate \<open>r64\<close> at a rational number.
\<close>

lemma r64_zero: "r64 0 = 0"
  by (simp add: r64_def)

lemma r64_binade:
  fixes k :: int
  assumes "2 powr (of_int k + 52) \<le> \<bar>x\<bar>" "\<bar>x\<bar> < 2 powr (of_int k + 53)"
  shows "r64 x = of_int (rne (x / 2 powr of_int k)) * 2 powr of_int k"
proof -
  have pos: "0 < \<bar>x\<bar>"
    using assms(1) powr_gt_zero [of 2 "of_int k + 52"] by linarith
  then have nz: "x \<noteq> 0" by simp
  have "\<lfloor>log 2 \<bar>x\<bar>\<rfloor> = k + 52"
    using assms pos by (subst floor_log_eq_powr_iff) (simp_all add: algebra_simps)
  then show ?thesis
    using nz by (simp add: r64_def Let_def)
qed

lemma r64_small:
  fixes n :: nat
  assumes "2 ^ 52 / 2 ^ n \<le> \<bar>x\<bar>" "\<bar>x\<bar> < 2 ^ 53 / 2 ^ n"
  shows "r64 x = of_int (rne (x * 2 ^ n)) / 2 ^ n"
proof -
  have k: "2 powr of_int (- int n) = 1 / (2 ^ n :: real)"
    by (simp add: powr_minus_divide powr_realpow)
  have "2 powr (of_int (- int n) + 52) = 2 ^ 52 / (2 ^ n :: real)"
    "2 powr (of_int (- int n) + 53) = 2 ^ 53 / (2 ^ n :: real)"
    unfolding powr_add k by simp_all
  with assms have "r64 x = of_int (rne (x / 2 powr of_int (- int n))) * 2 powr of_int (- int n)"
    by (intro r64_binade) simp_all
  then show ?thesis
    unfolding k by simp
qed

lemma r64_large:
  fixes n :: nat
  assumes "2 ^ 52 * 2 ^ n \<le> \<bar>x\<bar>" "\<bar>x\<bar> < 2 ^ 53 * 2 ^ n"
  shows "r64 x = of_int (rne (x / 2 ^ n)) * 2 ^ n"
proof -
  have k: "2 powr of_int (int n) = (2 ^ n :: real)"
    by (simp add: powr_realpow)
  have "2 powr (of_int (int n) + 52) = 2 ^ 52 * (2 ^ n :: real)"
    "2 powr (of_int (int n) + 53) = 2 ^ 53 * (2 ^ n :: real)"
    unfolding powr_add k by simp_all
  with assms have "r64 x = of_int (rne (x / 2 powr of_int (int n))) * 2 powr of_int (int n)"
    by (intro r64_binade) simp_all
  then show ?thesis
    unfolding k by simp
qed




section \<open>The intersection test in double arithmetic\<close>












section \<open>The resolver in double arithmetic\<close>

text \<open>The search of the resolver, as in exact arithmetic, over what the rounded
  intersection test reports and the rounded distances.\<close>

lemma evaluateAll64_append:
  "evaluateAll64 start ex (xs @ ys) s = evaluateAll64 start ex ys (evaluateAll64 start ex xs s)"
  by (induction xs arbitrary: s) simp_all

lemma findNearest64_one_loop:
  "findNearestIntersectionPointIn64 ws start =
     fst (evaluateAll64 start (expandLine64 start) (ws @ borders64) (None, INT64_MAX_double))"
  by (simp add: findNearestIntersectionPointIn64_def evaluateAll64_append Let_def)





lemma evaluateAll64_foldl:
  "evaluateAll64 start ex ws s =
     foldl (\<lambda>s h. case h of None \<Rightarrow> s
                   | Some q \<Rightarrow> if pointDistance64 (point1 start) q < snd s
                       then (Some q, pointDistance64 (point1 start) q) else s)
       s (map (findLineSegmentIntersection64 ex) ws)"
  by (induction ws arbitrary: s) (simp_all add: evaluateIntersection64_def)


section \<open>The program at particular inputs\<close>

text \<open>
  The rest evaluates the program in double arithmetic at particular inputs. Each
  fact \<open>r64 x = y\<close> below is one rounding that occurs there: \<open>x\<close> is the exact result of
  an operation on doubles and \<open>y\<close> the double nearest to it. The facts are grouped by
  the binade of \<open>x\<close>.
\<close>

lemma round_m107:
  "r64 (- (1 / 19814931263337268)) = - (4094368904762109 / 81129638414606681695789005144064)"
  "r64 (- (1 / 36028797018963968)) = - (1 / 36028797018963968)"
  "r64 (1 / 36028797018963968) = 1 / 36028797018963968"
  by (simp_all add: r64_small [where n = 107] rne_def)



lemma round_m90:
  "r64 (- (1 / 274877906944)) = - (1 / 274877906944)"
  by (simp add: r64_small [where n = 90] rne_def)

lemma round_m72:
  "r64 (1 / 1000000) = 4722366482869645 / 4722366482869645213696"
  "r64 (5404319552844595 / 4250048769789388128256) = 6004914037806463 / 4722366482869645213696"
  by (simp_all add: r64_small [where n = 72] rne_def)

lemma round_m71:
  "r64 (- (7926335344172081 / 2597182670548142391296)) = - (7206089272381319 / 2361183241434822606848)"
  "r64 (80220368362537 / 35048145236978462720) = 5404422634025819 / 2361183241434822606848"
  "r64 (1891511843495611 / 516485190165824012288) = 4323653563428791 / 1180591620717411303424"
  by (simp_all add: r64_small [where n = 71] rne_def)

lemma round_m70:
  "r64 (- (34359738368 / 4728563142387303)) = - (8578677705215847 / 1180591620717411303424)"
  "r64 (- (7475975381435025 / 1106753978926765309952)) = - (7974738794768653 / 1180591620717411303424)"
  "r64 (- (160127986750951 / 31481482451210469376)) = - (11728481954475 / 2305843009213693952)"
  "r64 (- (2353130805301085 / 486984754871700750336)) = - (5704668335916141 / 1180591620717411303424)"
  "r64 (- (2161727821137839 / 472215031008753156096)) = - (2702283477142993 / 590295810358705651712)"
  "r64 (- (517913957147607 / 121742937681944182784)) = - (2511212928254093 / 590295810358705651712)"
  "r64 (748723438050345 / 140192580947913834496) = 6305159739696787 / 1180591620717411303424"
  "r64 (2522015791327477 / 413188152132658921472) = 7206089272381311 / 1180591620717411303424"
  "r64 (990791918021509 / 152486103763243237376) = 7670998257696233 / 1180591620717411303424"
  by (simp_all add: r64_small [where n = 70] rne_def)

lemma round_m69:
  "r64 (- (34359738368 / 2927205754811187)) = - (6928931992674339 / 590295810358705651712)"
  "r64 (- (1170935903116329 / 118055559192039227392)) = - (5854858191673921 / 590295810358705651712)"
  "r64 (- (3535325707485839 / 357850453186320728064)) = - (5831732040019927 / 590295810358705651712)"
  "r64 (- (3602879701896397 / 472215031008753156096)) = - (281487862202395 / 36893488147419103232)"
  "r64 (3602879701896397 / 472227641087709806592) = 4503685528354847 / 590295810358705651712"
  "r64 (3963167672086037 / 472227641087709872128) = 1238513520297583 / 147573952589676412928"
  "r64 (5764607523034235 / 590277795960196169728) = 1407417834537 / 144115188075855872"
  "r64 (607985949695017 / 46379500463971500032) = 3869075294813937 / 295147905179352825856"
  "r64 (1621295865853379 / 118053757752188289024) = 4053425215714489 / 295147905179352825856"
  by (simp_all add: r64_small [where n = 69] rne_def)

lemma round_m68:
  "r64 (- (5224175567749775 / 177080636628282441728)) = - (2176839467698521 / 73786976294838206464)"
  "r64 (- (5764607523034235 / 236111118384078487552)) = - (7037089172685 / 288230376151711744)"
  "r64 (- (126429177039203 / 5495340937032202240)) = - (1697588338205213 / 73786976294838206464)"
  "r64 (- (7183241405655943 / 324656503247800500224)) = - (3265172008057265 / 147573952589676412928)"
  "r64 (- (1261007895663739 / 59027779596019605504)) = - (3152615949362881 / 147573952589676412928)"
  "r64 (7566047373982433 / 472227641087709741056) = 2364434902386295 / 147573952589676412928"
  "r64 (6124895493223877 / 354166677576117780480) = 5104235346587521 / 295147905179352825856"
  "r64 (2848526764311839 / 162328251623900250112) = 2589619178804037 / 147573952589676412928"
  "r64 (185773484629033 / 10145244806828681216) = 5404566954285985 / 295147905179352825856"
  "r64 (2415055300177429 / 131888182488772853760) = 5404566954285985 / 295147905179352825856"
  "r64 (3692951694443807 / 132810477471211831296) = 4103467502328247 / 147573952589676412928"
  by (simp_all add: r64_small [where n = 68] rne_def)

lemma round_m67:
  "r64 (- (3963167672086037 / 81161958454629449728)) = - (7206089272381313 / 147573952589676412928)"
  "r64 (- (6755399441055745 / 162323916909258899456)) = - (1535388339285791 / 36893488147419103232)"
  "r64 (- (5449355549118301 / 162326393889053966336)) = - (77407980899535 / 2305843009213693952)"
  "r64 (5449355549118301 / 162326393889053966336) = 77407980899535 / 2305843009213693952"
  "r64 (2642111781390691 / 78703706128026140672) = 4954110777570241 / 147573952589676412928"
  "r64 (7307090395408631 / 162328251623900250112) = 830367019290425 / 18446744073709551616"
  "r64 (2026619832316723 / 44270159157070602240) = 844463586607185 / 18446744073709551616"
  "r64 (90522352510147 / 1770853654078914560) = 7543673259994359 / 147573952589676412928"
  "r64 (4233383649728267 / 73783598595117694976) = 8467154895048041 / 147573952589676412928"
  by (simp_all add: r64_small [where n = 67] rne_def)




lemma round_m59:
  "r64 (- (4867778304876401892539258330153 / 324518553658426726783156020576256)) = - (4323455642275677 / 288230376151711744)"
  "r64 (- (12980742146337070512478121581609 / 1298074214633706907132624082305024)) = - (1441151880758559 / 144115188075855872)"
  "r64 (- (3245185536584266727399604921303 / 324518553658426726783156020576256)) = - (2882303761517117 / 288230376151711744)"
  "r64 (1 / 125) = 1152921504606847 / 144115188075855872"
  "r64 (811296384146066456669919861801 / 81129638414606681695789005144064) = 720575940379279 / 72057594037927936"
  "r64 (25961484292674137422076541266821 / 2596148429267413814265248164610048) = 5764607523034235 / 576460752303423488"
  by (simp_all add: r64_small [where n = 59] rne_def)

lemma round_m58:
  "r64 (- (450359962737049 / 18014398509481984)) = - (450359962737049 / 18014398509481984)"
  "r64 (- (29206669829258407752355848084521 / 1298074214633706907132624082305024)) = - (6485183463413515 / 288230376151711744)"
  "r64 (1 / 64) = 1 / 64"
  "r64 (20015998343868873 / 1152921504606846976) = 2501999792983609 / 144115188075855872"
  "r64 (1351079888211147 / 72057594037927936) = 1351079888211147 / 72057594037927936"
  "r64 (1825416864328650878587207900201 / 81129638414606681695789005144064) = 1621295865853379 / 72057594037927936"
  "r64 (3 / 125) = 3458764513820541 / 144115188075855872"
  "r64 (450359962737049 / 18014398509481984) = 450359962737049 / 18014398509481984"
  "r64 (3602879701896397 / 144115188075855872) = 3602879701896397 / 144115188075855872"
  "r64 (1891511843495611 / 72057594037927936) = 1891511843495611 / 72057594037927936"
  "r64 (2231065056401683431382223725527 / 81129638414606681695789005144064) = 990791918021509 / 36028797018963968"
  "r64 (39753522823157281596983986503025 / 1298074214633706907132624082305024) = 4413527634823087 / 144115188075855872"
  by (simp_all add: r64_small [where n = 58] rne_def)

lemma round_m57_0:
  "r64 (- (4867778304876401892539258330153 / 81129638414606681695789005144064)) = - (4323455642275677 / 72057594037927936)"
  "r64 (- (1216944576219100135364842529751 / 20282409603651670423947251286016)) = - (1080863910568919 / 18014398509481984)"
  "r64 (- (4867778304876399640739444644905 / 81129638414606681695789005144064)) = - (4323455642275675 / 72057594037927936)"
  "r64 (- (2161727821137837 / 36028797018963968)) = - (2161727821137837 / 36028797018963968)"
  "r64 (- (7205759403792795 / 144115188075855872)) = - (7205759403792795 / 144115188075855872)"
  "r64 (- (3602879701896397 / 72057594037927936)) = - (3602879701896397 / 72057594037927936)"
  "r64 (- (1 / 20)) = - (3602879701896397 / 72057594037927936)"
  "r64 (- (450359962737049 / 9007199254740992)) = - (450359962737049 / 9007199254740992)"
  "r64 (- (3245185536584266727399604921303 / 81129638414606681695789005144064)) = - (2882303761517117 / 72057594037927936)"
  "r64 (- (5404319552844595 / 144115188075855872)) = - (5404319552844595 / 144115188075855872)"
  "r64 (- (1 / 32)) = - (1 / 32)"
  "r64 (1 / 32) = 1 / 32"
  "r64 (4 / 125) = 1152921504606847 / 36028797018963968"
  "r64 (11358149378044935347338468172759 / 324518553658426726783156020576256) = 5044031582654955 / 144115188075855872"
  "r64 (5404319552844595 / 144115188075855872) = 5404319552844595 / 144115188075855872"
  "r64 (720575940379279 / 18014398509481984) = 720575940379279 / 18014398509481984"
  by (simp_all add: r64_small [where n = 57] rne_def)

lemma round_m57_1:
  "r64 (1574122160956548404357 / 37778931862957161709568) = 6004799503160661 / 144115188075855872"
  "r64 (750599937895083 / 18014398509481984) = 750599937895083 / 18014398509481984"
  "r64 (1825416864328650878587207900201 / 40564819207303340847894502572032) = 1621295865853379 / 36028797018963968"
  "r64 (3 / 64) = 3 / 64"
  "r64 (1 / 20) = 3602879701896397 / 72057594037927936"
  "r64 (3602879701896397 / 72057594037927936) = 3602879701896397 / 72057594037927936"
  "r64 (13 / 256) = 13 / 256"
  "r64 (4259306016766851149316892959703 / 81129638414606681695789005144064) = 3783023686991217 / 72057594037927936"
  "r64 (17037224067067404822447553207337 / 324518553658426726783156020576256) = 3783023686991217 / 72057594037927936"
  "r64 (4053239664633441 / 72057594037927936) = 4053239664633441 / 72057594037927936"
  "r64 (19471113219505603967277331424215 / 324518553658426726783156020576256) = 1080863910568919 / 18014398509481984"
  "r64 (4867778304876401892539258330153 / 81129638414606681695789005144064) = 4323455642275677 / 72057594037927936"
  "r64 (2161727821137839 / 36028797018963968) = 2161727821137839 / 36028797018963968"
  by (simp_all add: r64_small [where n = 57] rne_def)

lemma round_m56_0:
  "r64 (- (8924260225606736202508689955881 / 81129638414606681695789005144064)) = - (3963167672086037 / 36028797018963968)"
  "r64 (- (7926335344172073 / 72057594037927936)) = - (7926335344172073 / 72057594037927936)"
  "r64 (- (7475975381435025 / 72057594037927936)) = - (7475975381435025 / 72057594037927936)"
  "r64 (- (225179981368525 / 2251799813685248)) = - (225179981368525 / 2251799813685248)"
  "r64 (- (3602879701896397 / 36028797018963968)) = - (3602879701896397 / 36028797018963968)"
  "r64 (- (1 / 10)) = - (3602879701896397 / 36028797018963968)"
  "r64 (- (900719925474099 / 9007199254740992)) = - (900719925474099 / 9007199254740992)"
  "r64 (- (58413339658516807398232366902149 / 649037107316853453566312041152512)) = - (3242591731706757 / 36028797018963968)"
  "r64 (- (2972375754064527 / 36028797018963968)) = - (2972375754064527 / 36028797018963968)"
  "r64 (- (5854679515581645 / 72057594037927936)) = - (5854679515581645 / 72057594037927936)"
  "r64 (- (6287546977132016615451748508631 / 81129638414606681695789005144064)) = - (2792231768969707 / 36028797018963968)"
  "r64 (- (3082926259755053255921635854123 / 40564819207303340847894502572032)) = - (2738188573441261 / 36028797018963968)"
  "r64 (- (3082926259755052220093721558909 / 40564819207303340847894502572032)) = - (684547143360315 / 9007199254740992)"
  "r64 (- (1351079888211149 / 18014398509481984)) = - (1351079888211149 / 18014398509481984)"
  "r64 (- (10808639105689191 / 144115188075855872)) = - (1351079888211149 / 18014398509481984)"
  "r64 (- (20176126330619825 / 288230376151711744)) = - (1261007895663739 / 18014398509481984)"
  by (simp_all add: r64_small [where n = 56] rne_def)

lemma round_m56_1:
  "r64 (- (37469948899722525 / 576460752303423488)) = - (1170935903116329 / 18014398509481984)"
  "r64 (2522015791327477 / 36028797018963968) = 2522015791327477 / 36028797018963968"
  "r64 (22716298756089874297556638241915 / 324518553658426726783156020576256) = 1261007895663739 / 18014398509481984"
  "r64 (80220368362537 / 1125899906842624) = 80220368362537 / 1125899906842624"
  "r64 (5404319552844595 / 72057594037927936) = 5404319552844595 / 72057594037927936"
  "r64 (10808639105689191 / 144115188075855872) = 1351079888211149 / 18014398509481984"
  "r64 (55168154121932537518313022821499 / 649037107316853453566312041152512) = 3062447746611937 / 36028797018963968"
  "r64 (12 / 125) = 3458764513820541 / 36028797018963968"
  "r64 (900719925474099 / 9007199254740992) = 900719925474099 / 9007199254740992"
  "r64 (3602879701896397 / 36028797018963968) = 3602879701896397 / 36028797018963968"
  "r64 (33230699894622898206100982035225 / 324518553658426726783156020576256) = 7378697629483821 / 72057594037927936"
  "r64 (7378697629483821 / 72057594037927936) = 7378697629483821 / 72057594037927936"
  "r64 (7656119366529843 / 72057594037927936) = 7656119366529843 / 72057594037927936"
  "r64 (36913985478646044945399602353275 / 324518553658426726783156020576256) = 256142228806697 / 2251799813685248"
  "r64 (16573246628723425 / 144115188075855872) = 517913957147607 / 4503599627370496"
  "r64 (4722366482869645213071 / 37778931862957161709568) = 1 / 8"
  by (simp_all add: r64_small [where n = 56] rne_def)

lemma round_m55_0:
  "r64 (- (61 / 250)) = - (1098878309078401 / 4503599627370496)"
  "r64 (- (4867778304876401892539258330153 / 20282409603651670423947251286016)) = - (4323455642275677 / 18014398509481984)"
  "r64 (- (8574853690513425 / 36028797018963968)) = - (8574853690513425 / 36028797018963968)"
  "r64 (- (32425917317067573 / 144115188075855872)) = - (8106479329266893 / 36028797018963968)"
  "r64 (- (7926335344172081 / 36028797018963968)) = - (7926335344172081 / 36028797018963968)"
  "r64 (- (3963167672086037 / 18014398509481984)) = - (3963167672086037 / 18014398509481984)"
  "r64 (- (4259306016766851149316892959703 / 20282409603651670423947251286016)) = - (3783023686991217 / 18014398509481984)"
  "r64 (- (3602879701896397 / 18014398509481984)) = - (3602879701896397 / 18014398509481984)"
  "r64 (- (28823037615171175 / 144115188075855872)) = - (3602879701896397 / 18014398509481984)"
  "r64 (- (1 / 5)) = - (3602879701896397 / 18014398509481984)"
  "r64 (- (7205759403792793 / 36028797018963968)) = - (7205759403792793 / 36028797018963968)"
  "r64 (- (14141302829943357 / 72057594037927936)) = - (3535325707485839 / 18014398509481984)"
  "r64 (- (54043195528445957 / 288230376151711744)) = - (6755399441055745 / 36028797018963968)"
  "r64 (- (27021597764222975 / 144115188075855872)) = - (3 / 16)"
  "r64 (- (7298746790331676371582943743185 / 40564819207303340847894502572032)) = - (3241294695014075 / 18014398509481984)"
  "r64 (- (29194987161326704351424668875375 / 162259276829213363391578010288128)) = - (6482589390028149 / 36028797018963968)"
  by (simp_all add: r64_small [where n = 55] rne_def)

lemma round_m55_1:
  "r64 (- (3152519739159347 / 18014398509481984)) = - (3152519739159347 / 18014398509481984)"
  "r64 (- (5764607523034235 / 36028797018963968)) = - (5764607523034235 / 36028797018963968)"
  "r64 (- (1351079888211149 / 9007199254740992)) = - (1351079888211149 / 9007199254740992)"
  "r64 (- (5404319552844595 / 36028797018963968)) = - (5404319552844595 / 36028797018963968)"
  "r64 (- (48272134856690978941658182314885 / 324518553658426726783156020576256)) = - (5359283556570891 / 36028797018963968)"
  "r64 (- (11358149378044935347338468172759 / 81129638414606681695789005144064)) = - (5044031582654955 / 36028797018963968)"
  "r64 (- (1 / 8)) = - (1 / 8)"
  "r64 (1 / 8) = 1 / 8"
  "r64 (5404319552844595 / 36028797018963968) = 5404319552844595 / 36028797018963968"
  "r64 (5764607523034235 / 36028797018963968) = 5764607523034235 / 36028797018963968"
  "r64 (12980742146337070512478121581609 / 81129638414606681695789005144064) = 1441151880758559 / 9007199254740992"
  "r64 (11979575008805519 / 72057594037927936) = 748723438050345 / 4503599627370496"
  "r64 (6124895493223877 / 36028797018963968) = 6124895493223877 / 36028797018963968"
  "r64 (6305039478318695 / 36028797018963968) = 6305039478318695 / 36028797018963968"
  "r64 (1652828269004376047393 / 9444732965739290427392) = 6305039478318695 / 36028797018963968"
  "r64 (12970366926827033 / 72057594037927936) = 1621295865853379 / 9007199254740992"
  by (simp_all add: r64_small [where n = 55] rne_def)

lemma round_m55_2:
  "r64 (15008983106702237667462837394473 / 81129638414606681695789005144064) = 6665327448508335 / 36028797018963968"
  "r64 (3 / 16) = 3 / 16"
  "r64 (7910139745424152906491308760105 / 40564819207303340847894502572032) = 7025615418697975 / 36028797018963968"
  "r64 (900719925474099 / 4503599627370496) = 900719925474099 / 4503599627370496"
  "r64 (1 / 5) = 3602879701896397 / 18014398509481984"
  "r64 (3602879701896397 / 18014398509481984) = 3602879701896397 / 18014398509481984"
  "r64 (1801439850948199 / 9007199254740992) = 1801439850948199 / 9007199254740992"
  "r64 (60528378991859467 / 288230376151711744) = 7566047373982433 / 36028797018963968"
  "r64 (557766264100421477090504694825 / 2535301200456458802993406410752) = 7926335344172081 / 36028797018963968"
  "r64 (8106479329266893 / 36028797018963968) = 8106479329266893 / 36028797018963968"
  "r64 (32425917317067573 / 144115188075855872) = 8106479329266893 / 36028797018963968"
  "r64 (4233383649728267 / 18014398509481984) = 4233383649728267 / 18014398509481984"
  "r64 (8574853690513425 / 36028797018963968) = 8574853690513425 / 36028797018963968"
  "r64 (5019896376903788902804905567191 / 20282409603651670423947251286016) = 8917127262193583 / 36028797018963968"
  by (simp_all add: r64_small [where n = 55] rne_def)

lemma round_m54_0:
  "r64 (- (17023606591460475 / 36028797018963968)) = - (4255901647865119 / 9007199254740992)"
  "r64 (- (16212958658533785 / 36028797018963968)) = - (2026619832316723 / 4503599627370496)"
  "r64 (- (30624477466119373 / 72057594037927936)) = - (7656119366529843 / 18014398509481984)"
  "r64 (- (7656119366529843 / 18014398509481984)) = - (7656119366529843 / 18014398509481984)"
  "r64 (- (14951950762870047 / 36028797018963968)) = - (467248461339689 / 1125899906842624)"
  "r64 (- (29543613555550457 / 72057594037927936)) = - (3692951694443807 / 9007199254740992)"
  "r64 (- (3602879701896397 / 9007199254740992)) = - (3602879701896397 / 9007199254740992)"
  "r64 (- (2 / 5)) = - (3602879701896397 / 9007199254740992)"
  "r64 (- (7881419853425380946239917521325 / 20282409603651670423947251286016)) = - (7000107030408547 / 18014398509481984)"
  "r64 (- (3 / 8)) = - (3 / 8)"
  "r64 (- (48038396025285291 / 144115188075855872)) = - (6004799503160661 / 18014398509481984)"
  "r64 (- (5854679515581645 / 18014398509481984)) = - (5854679515581645 / 18014398509481984)"
  "r64 (- (1351079888211149 / 4503599627370496)) = - (1351079888211149 / 4503599627370496)"
  "r64 (- (10808639105689191 / 36028797018963968)) = - (1351079888211149 / 4503599627370496)"
  "r64 (- (3 / 10)) = - (5404319552844595 / 18014398509481984)"
  "r64 (- (5404319552844595 / 18014398509481984)) = - (5404319552844595 / 18014398509481984)"
  by (simp_all add: r64_small [where n = 54] rne_def)

lemma round_m54_1:
  "r64 (- (2589569785738035 / 9007199254740992)) = - (2589569785738035 / 9007199254740992)"
  "r64 (- (9907919180215091 / 36028797018963968)) = - (2476979795053773 / 9007199254740992)"
  "r64 (- (36317027395115679 / 144115188075855872)) = - (1134907106097365 / 4503599627370496)"
  "r64 (18014398509481985 / 72057594037927936) = 1 / 4"
  "r64 (18104470502029399 / 72057594037927936) = 2263058812753675 / 9007199254740992"
  "r64 (637997778136815 / 2476932550413517) = 1160018085837855 / 4503599627370496"
  "r64 (27 / 100) = 607985949695017 / 2251799813685248"
  "r64 (607985949695017 / 2251799813685248) = 607985949695017 / 2251799813685248"
  "r64 (22361356588025968533913688038441 / 81129638414606681695789005144064) = 1241304647293993 / 4503599627370496"
  "r64 (5224175567749775 / 18014398509481984) = 5224175567749775 / 18014398509481984"
  "r64 (5404319552844595 / 18014398509481984) = 5404319552844595 / 18014398509481984"
  "r64 (3 / 10) = 5404319552844595 / 18014398509481984"
  "r64 (10808639105689191 / 36028797018963968) = 1351079888211149 / 4503599627370496"
  "r64 (44135276348230863 / 144115188075855872) = 2758454771764429 / 9007199254740992"
  "r64 (3118420476561444519084874048471 / 10141204801825835211973625643008) = 2769713770832855 / 9007199254740992"
  "r64 (1576187714129101 / 4953732815834317) = 2865927035599407 / 9007199254740992"
  by (simp_all add: r64_small [where n = 54] rne_def)

lemma round_m54_2:
  "r64 (46116860184273879 / 144115188075855872) = 5764607523034235 / 18014398509481984"
  "r64 (8 / 25) = 5764607523034235 / 18014398509481984"
  "r64 (5764607523034235 / 18014398509481984) = 5764607523034235 / 18014398509481984"
  "r64 (5854679515581645 / 18014398509481984) = 5854679515581645 / 18014398509481984"
  "r64 (6705871675207332498089645661225 / 20282409603651670423947251286016) = 744501313399685 / 2251799813685248"
  "r64 (7205539501467239 / 21616618504401720) = 1501199875790165 / 4503599627370496"
  "r64 (5854411509622377 / 16887725508526082) = 3122495741643545 / 9007199254740992"
  "r64 (25220157913274779 / 72057594037927936) = 6305039478318695 / 18014398509481984"
  "r64 (9 / 25) = 3242591731706757 / 9007199254740992"
  "r64 (1825416864328650878587207900201 / 5070602400912917605986812821504) = 1621295865853379 / 4503599627370496"
  "r64 (59548505559213993229674168719625 / 162259276829213363391578010288128) = 6611212195385851 / 18014398509481984"
  "r64 (14887126389803498886131094297015 / 40564819207303340847894502572032) = 6611212195385851 / 18014398509481984"
  "r64 (6192166019792897 / 16099631651461530) = 3464307405669613 / 9007199254740992"
  "r64 (900719925474099 / 2251799813685248) = 900719925474099 / 2251799813685248"
  "r64 (2 / 5) = 3602879701896397 / 9007199254740992"
  "r64 (34074448134134808293815218203525 / 81129638414606681695789005144064) = 3783023686991217 / 9007199254740992"
  by (simp_all add: r64_small [where n = 54] rne_def)

lemma round_m54_3:
  "r64 (7656119366529843 / 18014398509481984) = 7656119366529843 / 18014398509481984"
  "r64 (2026619832316723 / 4503599627370496) = 2026619832316723 / 4503599627370496"
  "r64 (32425917317067571 / 72057594037927936) = 8106479329266893 / 18014398509481984"
  "r64 (1069604911500493 / 2251799813685248) = 1069604911500493 / 2251799813685248"
  by (simp_all add: r64_small [where n = 54] rne_def)

lemma round_m53_0:
  "r64 (- (2195504818343117 / 2251799813685248)) = - (2195504818343117 / 2251799813685248)"
  "r64 (- (16663318621270835 / 18014398509481984)) = - (4165829655317709 / 4503599627370496)"
  "r64 (- (14861878770322637 / 18014398509481984)) = - (3715469692580659 / 4503599627370496)"
  "r64 (- (6980579422424269 / 9007199254740992)) = - (6980579422424269 / 9007199254740992)"
  "r64 (- (3422735716801577 / 4503599627370496)) = - (3422735716801577 / 4503599627370496)"
  "r64 (- (108951082185347037 / 144115188075855872)) = - (3404721318292095 / 4503599627370496)"
  "r64 (- (183 / 250)) = - (3296634927235203 / 4503599627370496)"
  "r64 (- (1801405491209830 / 2476932550413517)) = - (1637672591771089 / 2251799813685248)"
  "r64 (- (25724561071540275 / 36028797018963968)) = - (6431140267885069 / 9007199254740992)"
  "r64 (- (11 / 16)) = - (11 / 16)"
  "r64 (- (3377545101705216 / 4953732815834317)) = - (6141272219141585 / 9007199254740992)"
  "r64 (- (5854679515581645 / 9007199254740992)) = - (5854679515581645 / 9007199254740992)"
  "r64 (- (5 / 8)) = - (5 / 8)"
  "r64 (- (354177486215223455005 / 590295810358705651712)) = - (1351079888211149 / 2251799813685248)"
  "r64 (- (1351079888211149 / 2251799813685248)) = - (1351079888211149 / 2251799813685248)"
  "r64 (- (10808639105689191 / 18014398509481984)) = - (1351079888211149 / 2251799813685248)"
  by (simp_all add: r64_small [where n = 53] rne_def)

lemma round_m53_1:
  "r64 (- (4728563142387301 / 7880938570645508)) = - (5404319552844591 / 9007199254740992)"
  "r64 (- (10358279142952141 / 18014398509481984)) = - (2589569785738035 / 4503599627370496)"
  "r64 (- (18915118434956083 / 36028797018963968)) = - (4728779608739021 / 9007199254740992)"
  "r64 (- (1838885666483951 / 3640243054060066)) = - (284376780594271 / 562949953421312)"
  "r64 (- (1 / 2)) = - (1 / 2)"
  "r64 (1 / 2) = 1 / 2"
  "r64 (2314850208468435 / 4503599627370496) = 2314850208468435 / 4503599627370496"
  "r64 (4728779608739021 / 9007199254740992) = 4728779608739021 / 9007199254740992"
  "r64 (4958484807013128142179 / 9444732965739290427392) = 4728779608739021 / 9007199254740992"
  "r64 (4503513728024576 / 8106324710444237) = 2501999792983609 / 4503599627370496"
  "r64 (2589569785738035 / 4503599627370496) = 2589569785738035 / 4503599627370496"
  "r64 (678840181912511455143 / 1180591620717411303424) = 2589569785738035 / 4503599627370496"
  "r64 (4390925884823962 / 7430797651240551) = 5322435923256041 / 9007199254740992"
  "r64 (21617278211378381 / 36028797018963968) = 5404319552844595 / 9007199254740992"
  "r64 (5404154626100429 / 9006924376834048) = 5404319552844595 / 9007199254740992"
  "r64 (10808639105689191 / 18014398509481984) = 1351079888211149 / 2251799813685248"
  by (simp_all add: r64_small [where n = 53] rne_def)

lemma round_m53_2:
  "r64 (1351079888211149 / 2251799813685248) = 1351079888211149 / 2251799813685248"
  "r64 (354177486215223455005 / 590295810358705651712) = 1351079888211149 / 2251799813685248"
  "r64 (5 / 8) = 5 / 8"
  "r64 (13 / 20) = 5854679515581645 / 9007199254740992"
  "r64 (3377545101705216 / 4953732815834317) = 6141272219141585 / 9007199254740992"
  "r64 (7 / 10) = 3152519739159347 / 4503599627370496"
  "r64 (12610078956637389 / 18014398509481984) = 3152519739159347 / 4503599627370496"
  "r64 (25724561071540275 / 36028797018963968) = 6431140267885069 / 9007199254740992"
  "r64 (1621295865853379 / 2251799813685248) = 1621295865853379 / 2251799813685248"
  "r64 (1632554864921805 / 2251799813685248) = 1632554864921805 / 2251799813685248"
  "r64 (14411518807585587 / 18014398509481984) = 3602879701896397 / 4503599627370496"
  "r64 (4 / 5) = 3602879701896397 / 4503599627370496"
  "r64 (5966996346345881 / 7430599223751476) = 7233053946988977 / 9007199254740992"
  "r64 (81 / 100) = 1823957849085051 / 2251799813685248"
  "r64 (1823957849085051 / 2251799813685248) = 1823957849085051 / 2251799813685248"
  "r64 (13 / 16) = 13 / 16"
  by (simp_all add: r64_small [where n = 53] rne_def)

lemma round_m53_3:
  "r64 (9 / 10) = 8106479329266893 / 9007199254740992"
  "r64 (2195504818343117 / 2251799813685248) = 2195504818343117 / 2251799813685248"
  by (simp_all add: r64_small [where n = 53] rne_def)

lemma round_m52_0:
  "r64 (- (17113678584007885 / 9007199254740992)) = - (4278419646001971 / 2251799813685248)"
  "r64 (- (3884354678607053 / 2251799813685248)) = - (3884354678607053 / 2251799813685248)"
  "r64 (- (4503462188417024 / 2702077313050215)) = - (7505999378950825 / 4503599627370496)"
  "r64 (- (3 / 2)) = - (3 / 2)"
  "r64 (- (3321404725185741 / 2251799813685248)) = - (3321404725185741 / 2251799813685248)"
  "r64 (- (3346597584602526385563233115177 / 2535301200456458802993406410752)) = - (185773484629033 / 140737488355328)"
  "r64 (- (185773484629033 / 140737488355328)) = - (185773484629033 / 140737488355328)"
  "r64 (- (6079743532833177 / 4953865100827034)) = - (2763572498613713 / 2251799813685248)"
  "r64 (- (9 / 8)) = - (9 / 8)"
  "r64 (- (2476979795053773 / 2251799813685248)) = - (2476979795053773 / 2251799813685248)"
  "r64 (- (11 / 10)) = - (2476979795053773 / 2251799813685248)"
  "r64 (- (2649389754477000158445051010089 / 2535301200456458802993406410752)) = - (2353130805301085 / 2251799813685248)"
  "r64 (- (9232379236109517 / 9007199254740992)) = - (2308094809027379 / 2251799813685248)"
  "r64 (- 1) = - 1"
  "r64 1 = 1"
  "r64 (8049815825730766 / 8049815825730765) = 4503599627370497 / 4503599627370496"
  by (simp_all add: r64_small [where n = 52] rne_def)

lemma round_m52_1:
  "r64 (6304750856516403 / 6304750856516402) = 4503599627370497 / 4503599627370496"
  "r64 (2353130805301085 / 2251799813685248) = 2353130805301085 / 2251799813685248"
  "r64 (4953959590107545 / 4503599627370496) = 4953959590107545 / 4503599627370496"
  "r64 (2536427310135063345 / 2305843009213693952) = 2476979795053773 / 2251799813685248"
  "r64 (11 / 10) = 2476979795053773 / 2251799813685248"
  "r64 (39631676720860365 / 36028797018963968) = 2476979795053773 / 2251799813685248"
  "r64 (2476979795053773 / 2251799813685248) = 2476979795053773 / 2251799813685248"
  "r64 (10268207150404731 / 9007199254740992) = 2567051787601183 / 2251799813685248"
  "r64 (5780486737040726656292918174679 / 5070602400912917605986812821504) = 2567051787601183 / 2251799813685248"
  "r64 (21617278211378381 / 18014398509481984) = 5404319552844595 / 4503599627370496"
  "r64 (5449355549118301 / 4503599627370496) = 5449355549118301 / 4503599627370496"
  "r64 (6135428905104631294035961535529 / 5070602400912917605986812821504) = 5449355549118301 / 4503599627370496"
  "r64 (2758454771764429 / 2251799813685248) = 2758454771764429 / 2251799813685248"
  "r64 (23418718062326579 / 18014398509481984) = 5854679515581645 / 4503599627370496"
  "r64 (3 / 2) = 3 / 2"
  "r64 (5404154626100429 / 3602769750733619) = 6755399441055745 / 4503599627370496"
  by (simp_all add: r64_small [where n = 52] rne_def)

lemma round_m52_2:
  "r64 (6944550625405305 / 4503599627370496) = 6944550625405305 / 4503599627370496"
  "r64 (4043805414728052612681415220265 / 2535301200456458802993406410752) = 7183241405655943 / 4503599627370496"
  "r64 (7183241405655943 / 4503599627370496) = 7183241405655943 / 4503599627370496"
  "r64 (3602879701896397 / 2251799813685248) = 3602879701896397 / 2251799813685248"
  "r64 (2195504818343117 / 1351079888211149) = 13 / 8"
  "r64 (13 / 8) = 13 / 8"
  "r64 (8049815825730766 / 4953732815834317) = 7318349394477057 / 4503599627370496"
  "r64 (8331277917539534 / 4953732815834317) = 3787117868470645 / 2251799813685248"
  "r64 (7768709357214105 / 4503599627370496) = 7768709357214105 / 4503599627370496"
  "r64 (2036520545737534365429 / 1180591620717411303424) = 7768709357214105 / 4503599627370496"
  "r64 (4390925884823962 / 2476932550413517) = 7983653884884061 / 4503599627370496"
  "r64 (2251756864012288 / 1200936994139887) = 15 / 8"
  by (simp_all add: r64_small [where n = 52] rne_def)

lemma round_m51_0:
  "r64 (- (8545580292935517 / 2251799813685248)) = - (8545580292935517 / 2251799813685248)"
  "r64 (- (9006786937880576 / 2702036081364173)) = - (3752999689475413 / 1125899906842624)"
  "r64 (- (7805882012829832 / 2401809850101487)) = - (7318349394477055 / 2251799813685248)"
  "r64 (- (7307090395408631 / 2251799813685248)) = - (7307090395408631 / 2251799813685248)"
  "r64 (- (8227052395481209975390507850793 / 2535301200456458802993406410752)) = - (7307090395408631 / 2251799813685248)"
  "r64 (- (7805882012829832 / 2702036081364173)) = - (3252599730878691 / 1125899906842624)"
  "r64 (- (6832636735230157521154143640617 / 2535301200456458802993406410752)) = - (379287531117609 / 140737488355328)"
  "r64 (- (6135428905104631294035961535529 / 2535301200456458802993406410752)) = - (5449355549118301 / 2251799813685248)"
  "r64 (- (5449355549118301 / 2251799813685248)) = - (5449355549118301 / 2251799813685248)"
  "r64 (- (16212649420888472 / 7205621964839321)) = - (9 / 4)"
  "r64 (- (2476979795053773 / 1125899906842624)) = - (2476979795053773 / 1125899906842624)"
  "r64 (- (2415055300177429 / 1125899906842624)) = - (2415055300177429 / 1125899906842624)"
  "r64 (- (14411079002934478 / 7205539501467237)) = - (4503599627370497 / 2251799813685248)"
  "r64 (- 2) = - 2"
  "r64 2 = 2"
  "r64 (18013573875761152 / 8781617264433561) = 4619076540892817 / 2251799813685248"
  by (simp_all add: r64_small [where n = 51] rne_def)

lemma round_m51_1:
  "r64 (4728779608739021 / 2251799813685248) = 4728779608739021 / 2251799813685248"
  "r64 (5438221074979105066917779430441 / 2535301200456458802993406410752) = 2415055300177429 / 1125899906842624"
  "r64 (2476979795053773 / 1125899906842624) = 2476979795053773 / 1125899906842624"
  "r64 (5449355549118301 / 2251799813685248) = 5449355549118301 / 2251799813685248"
  "r64 (6135428905104631294035961535529 / 2535301200456458802993406410752) = 5449355549118301 / 2251799813685248"
  "r64 (18013848753668096 / 7205539501467239) = 5 / 2"
  "r64 (379287531117609 / 140737488355328) = 379287531117609 / 140737488355328"
  "r64 (2364281571193651 / 872532484607181) = 1525412777012587 / 562949953421312"
  "r64 (60352845076865992482806810951025 / 20282409603651670423947251286016) = 6700511820597165 / 2251799813685248"
  "r64 3 = 3"
  "r64 (3722506566998425 / 1125899906842624) = 3722506566998425 / 1125899906842624"
  "r64 (8406334475355204 / 2401809850101487) = 7 / 2"
  "r64 (3963167672086037 / 1125899906842624) = 3963167672086037 / 1125899906842624"
  "r64 (8924260225606736202508689955881 / 2535301200456458802993406410752) = 3963167672086037 / 1125899906842624"
  "r64 (9621468055732262429626872060969 / 2535301200456458802993406410752) = 8545580292935517 / 2251799813685248"
  "r64 (18013573875761152 / 4728563142387303) = 8578285004515229 / 2251799813685248"
  by (simp_all add: r64_small [where n = 51] rne_def)

lemma round_m50:
  "r64 (- (32874772323264096 / 4953732815834317)) = - (3735940599977797 / 562949953421312)"
  "r64 (- (11713091546108841110981418376233 / 2535301200456458802993406410752)) = - (1300414392403231 / 281474976710656)"
  "r64 (- 4) = - 4"
  "r64 4 = 4"
  "r64 (32424432976370072 / 7205429550304461) = 9 / 2"
  "r64 (1300414392403231 / 281474976710656) = 1300414392403231 / 281474976710656"
  by (simp_all add: r64_small [where n = 50] rne_def)

lemma round_m49:
  "r64 (- (60345472483799864 / 4503393468940289)) = - (1885882343961395 / 140737488355328)"
  "r64 (9006786937880576 / 1080814432545669) = 4691249611844267 / 562949953421312"
  "r64 (17563703539295844 / 1351054118407375) = 7318349394477043 / 562949953421312"
  by (simp_all add: r64_small [where n = 49] rne_def)



lemma round_m41:
  "r64 (- (236113820543854837761 / 72057594037927936)) = - (900702745604915 / 274877906944)"
  "r64 (- (7205539501467239 / 2199023255552)) = - (7205539501467239 / 2199023255552)"
  "r64 (- (118055559192039240499 / 36028797018963968)) = - (7205539501467239 / 2199023255552)"
  "r64 (- (7205539501467237 / 2199023255552)) = - (7205539501467237 / 2199023255552)"
  "r64 (- (29513889798009801933 / 9007199254740992)) = - (7205539501467237 / 2199023255552)"
  "r64 (- (236107515504376584601 / 72057594037927936)) = - (7205429550304461 / 2199023255552)"
  "r64 (- (59026878876094129767 / 18014398509481984)) = - (7205429550304459 / 2199023255552)"
  "r64 (88540318314141227417 / 36028797018963968) = 2702036081364173 / 1099511627776"
  "r64 (383674712694611417521 / 144115188075855872) = 5854411509622367 / 2199023255552"
  "r64 (59026878876094129767 / 18014398509481984) = 7205429550304459 / 2199023255552"
  "r64 (14756719719023548825 / 4503599627370496) = 7205429550304467 / 2199023255552"
  "r64 (29513889798009801933 / 9007199254740992) = 7205539501467237 / 2199023255552"
  "r64 (7205539501467237 / 2199023255552) = 7205539501467237 / 2199023255552"
  "r64 (236113820543854837761 / 72057594037927936) = 900702745604915 / 274877906944"
  "r64 (4503393468940289 / 1099511627776) = 4503393468940289 / 1099511627776"
  "r64 (262139 / 64) = 262139 / 64"
  by (simp_all add: r64_small [where n = 41] rne_def)

lemma round_m40_0:
  "r64 (- (531241909884847298969 / 72057594037927936)) = - (8106108244092519 / 1099511627776)"
  "r64 (- (944455282175419613183 / 144115188075855872)) = - (3602810982419661 / 549755813888)"
  "r64 (- (7205539501467239 / 1099511627776)) = - (7205539501467239 / 1099511627776)"
  "r64 (- (118055559192039240499 / 18014398509481984)) = - (7205539501467239 / 1099511627776)"
  "r64 (- (236107515504376584601 / 36028797018963968)) = - (7205429550304461 / 1099511627776)"
  "r64 (- (5854411509622377 / 1099511627776)) = - (5854411509622377 / 1099511627776)"
  "r64 (- (767349425389223686971 / 144115188075855872)) = - (5854411509622373 / 1099511627776)"
  "r64 (- (88540318314141227417 / 18014398509481984)) = - (2702036081364173 / 549755813888)"
  "r64 (4728563142387301 / 1099511627776) = 4728563142387301 / 1099511627776"
  "r64 (4953732815834317 / 1099511627776) = 4953732815834317 / 1099511627776"
  "r64 (354170730815781863433 / 72057594037927936) = 1351054118407371 / 274877906944"
  "r64 (1351054118407375 / 274877906944) = 1351054118407375 / 274877906944"
  "r64 (3069397701556895599813 / 576460752303423488) = 5854411509622375 / 1099511627776"
  "r64 (206594076066329486951 / 36028797018963968) = 6304750856516403 / 1099511627776"
  "r64 (472215031008753103669 / 72057594037927936) = 1801357387576115 / 274877906944"
  "r64 (236107515504376584601 / 36028797018963968) = 7205429550304461 / 1099511627776"
  by (simp_all add: r64_small [where n = 40] rne_def)

lemma round_m40_1:
  "r64 (236111118384078448231 / 36028797018963968) = 3602769750733619 / 549755813888"
  "r64 (3602769750733619 / 549755813888) = 3602769750733619 / 549755813888"
  "r64 (118055559192039240499 / 18014398509481984) = 7205539501467239 / 1099511627776"
  "r64 (7205539501467239 / 1099511627776) = 7205539501467239 / 1099511627776"
  "r64 (1888910564350838964227 / 288230376151711744) = 7205621964839321 / 1099511627776"
  "r64 (15761877141291017 / 2199023255552) = 1970234642661377 / 274877906944"
  "r64 (1062512192447347163133 / 144115188075855872) = 4053162355222119 / 549755813888"
  "r64 (1151024138083835956421 / 144115188075855872) = 8781617264433563 / 1099511627776"
  "r64 (65533 / 8) = 65533 / 8"
  by (simp_all add: r64_small [where n = 40] rne_def)

lemma round_m39_0:
  "r64 (- (262139 / 16)) = - (262139 / 16)"
  "r64 (- (32767 / 2)) = - (32767 / 2)"
  "r64 (- (65533 / 4)) = - (65533 / 4)"
  "r64 (- (4604096552335342973755 / 288230376151711744)) = - (8781617264433561 / 549755813888)"
  "r64 (- (8781617264433561 / 549755813888)) = - (8781617264433561 / 549755813888)"
  "r64 (- (280385161895827734527 / 18014398509481984)) = - (1069584510405837 / 68719476736)"
  "r64 (- (32424432976370075 / 2199023255552)) = - (8106108244092519 / 549755813888)"
  "r64 (- (501728470446800201319 / 36028797018963968)) = - (7655768897198489 / 549755813888)"
  "r64 (- (851929 / 64)) = - (851929 / 64)"
  "r64 (- (7205429550304461 / 549755813888)) = - (7205429550304461 / 549755813888)"
  "r64 (- (27921039507429793 / 2199023255552)) = - (872532484607181 / 68719476736)"
  "r64 (- (786417 / 64)) = - (786417 / 64)"
  "r64 (- (6304750856516403 / 549755813888)) = - (6304750856516403 / 549755813888)"
  "r64 (- (3069397701556895599813 / 288230376151711744)) = - (5854411509622375 / 549755813888)"
  "r64 (- (383674712694611941785 / 36028797018963968)) = - (5854411509622375 / 549755813888)"
  "r64 (- (5404154626100429 / 549755813888)) = - (5404154626100429 / 549755813888)"
  by (simp_all add: r64_small [where n = 39] rne_def)

lemma round_m39_1:
  "r64 (- (177083338788058844365 / 18014398509481984)) = - (5404154626100429 / 549755813888)"
  "r64 (- (88540318314141227417 / 9007199254740992)) = - (2702036081364173 / 274877906944)"
  "r64 (- (10808144325456691 / 1099511627776)) = - (2702036081364173 / 274877906944)"
  "r64 (- (354161273256564844135 / 36028797018963968)) = - (5404072162728345 / 549755813888)"
  "r64 (5404072162728345 / 549755813888) = 5404072162728345 / 549755813888"
  "r64 (354161273256564844135 / 36028797018963968) = 5404072162728345 / 549755813888"
  "r64 (88540318314141227417 / 9007199254740992) = 2702036081364173 / 274877906944"
  "r64 (177083338788058844365 / 18014398509481984) = 5404154626100429 / 549755813888"
  "r64 (5404154626100429 / 549755813888) = 5404154626100429 / 549755813888"
  "r64 (44270834697014719283 / 4503599627370496) = 2702077313050215 / 274877906944"
  "r64 (2702077313050215 / 274877906944) = 2702077313050215 / 274877906944"
  "r64 (2833365846526258839549 / 288230376151711744) = 5404216473629491 / 549755813888"
  "r64 (354170730815782387711 / 36028797018963968) = 1351054118407373 / 137438953472"
  "r64 (5516656999451853 / 549755813888) = 5516656999451853 / 549755813888"
  "r64 (3069397701556895599813 / 288230376151711744) = 5854411509622375 / 549755813888"
  "r64 (1534739833535056838655 / 144115188075855872) = 5854567846431949 / 549755813888"
  by (simp_all add: r64_small [where n = 39] rne_def)

lemma round_m39_2:
  "r64 (50438006852131219 / 4398046511104) = 3152375428258201 / 274877906944"
  "r64 (413188152132659039435 / 36028797018963968) = 1576187714129101 / 137438953472"
  "r64 (196599 / 16) = 196599 / 16"
  "r64 (28821718201217843 / 2199023255552) = 7205429550304461 / 549755813888"
  "r64 (28821718201217845 / 2199023255552) = 7205429550304461 / 549755813888"
  "r64 (7205621964839321 / 549755813888) = 7205621964839321 / 549755813888"
  "r64 (2006967474622766514177 / 144115188075855872) = 7655973337641779 / 549755813888"
  "r64 (531241909884847298969 / 36028797018963968) = 8106108244092519 / 549755813888"
  "r64 (33775451017052165 / 2199023255552) = 8443862754263041 / 549755813888"
  "r64 (4604096552335342973755 / 288230376151711744) = 8781617264433561 / 549755813888"
  "r64 (1151024138083835956421 / 72057594037927936) = 8781617264433563 / 549755813888"
  "r64 (32767 / 2) = 32767 / 2"
  "r64 (262139 / 16) = 262139 / 16"
  by (simp_all add: r64_small [where n = 39] rne_def)

lemma round_m38_0:
  "r64 (- (262139 / 8)) = - (262139 / 8)"
  "r64 (- 32767) = - 32767"
  "r64 (- (65533 / 2)) = - (65533 / 2)"
  "r64 (- (18013573875761151 / 549755813888)) = - (65533 / 2)"
  "r64 (- (65531 / 2)) = - (65531 / 2)"
  "r64 (- (4604096552335342973755 / 144115188075855872)) = - (8781617264433561 / 274877906944)"
  "r64 (- (17113352166493387 / 549755813888)) = - (4278338041623347 / 137438953472)"
  "r64 (- (8106324710444237 / 274877906944)) = - (8106324710444237 / 274877906944)"
  "r64 (- (14861198447502951 / 549755813888)) = - (1857649805937869 / 68719476736)"
  "r64 (- (7205621964839323 / 274877906944)) = - (7205621964839323 / 274877906944)"
  "r64 (- (14411243929678643 / 549755813888)) = - (3602810982419661 / 137438953472)"
  "r64 (- (900702745604915 / 34359738368)) = - (900702745604915 / 34359738368)"
  "r64 (- (236107515504376584601 / 9007199254740992)) = - (7205429550304461 / 274877906944)"
  "r64 (- (786417 / 32)) = - (786417 / 32)"
  "r64 (- (6906144828503014886597 / 288230376151711744)) = - (6586212948325171 / 274877906944)"
  "r64 (- (206594076066329486951 / 9007199254740992)) = - (6304750856516403 / 274877906944)"
  by (simp_all add: r64_small [where n = 38] rne_def)

lemma round_m38_1:
  "r64 (- (327665 / 16)) = - (327665 / 16)"
  "r64 (- (2833365846526258839549 / 144115188075855872)) = - (5404216473629491 / 274877906944)"
  "r64 (- (88540318314141227417 / 4503599627370496)) = - (2702036081364173 / 137438953472)"
  "r64 (- (5371445977724567512655 / 288230376151711744)) = - (2561305035459789 / 137438953472)"
  "r64 (- (18914252569549211 / 1099511627776)) = - (4728563142387303 / 274877906944)"
  "r64 (2479195115710476189699 / 144115188075855872) = 4728689414425805 / 274877906944"
  "r64 (1239597557855238225919 / 72057594037927936) = 4728689414425805 / 274877906944"
  "r64 (354161273256564844135 / 18014398509481984) = 5404072162728345 / 274877906944"
  "r64 (2833365846526258839549 / 144115188075855872) = 5404216473629491 / 274877906944"
  "r64 (5460364581090099 / 274877906944) = 5460364581090099 / 274877906944"
  "r64 (23867985385383525 / 1099511627776) = 5966996346345881 / 274877906944"
  "r64 (206594076066329486951 / 9007199254740992) = 6304750856516403 / 274877906944"
  "r64 (50438006852131235 / 2199023255552) = 1576187714129101 / 68719476736"
  "r64 (236107515504376584601 / 9007199254740992) = 7205429550304461 / 274877906944"
  "r64 (973969509743401369601 / 36028797018963968) = 3715398825620275 / 137438953472"
  "r64 (1947939019486803001341 / 72057594037927936) = 7430797651240551 / 274877906944"
  by (simp_all add: r64_small [where n = 38] rne_def)

lemma round_m38_2:
  "r64 (16212649420888473 / 549755813888) = 2026581177611059 / 68719476736"
  "r64 (4250048769789387866115 / 144115188075855872) = 8106324710444237 / 274877906944"
  "r64 (1062512192447347163133 / 36028797018963968) = 4053162355222119 / 137438953472"
  "r64 (32874772323264097 / 1099511627776) = 1027336635102003 / 34359738368"
  "r64 (1092026420015328919551 / 36028797018963968) = 4165750198422733 / 137438953472"
  "r64 (34226704332986777 / 1099511627776) = 4278338041623347 / 137438953472"
  "r64 (8556676083246695 / 274877906944) = 8556676083246695 / 274877906944"
  "r64 (143878017260479486361 / 4503599627370496) = 4390808632216781 / 137438953472"
  "r64 (1151024138083835956421 / 36028797018963968) = 8781617264433563 / 274877906944"
  "r64 (65533 / 2) = 65533 / 2"
  "r64 32767 = 32767"
  "r64 (262139 / 8) = 262139 / 8"
  by (simp_all add: r64_small [where n = 38] rne_def)

lemma round_m37_0:
  "r64 (- (4390925884823961 / 68719476736)) = - (4390925884823961 / 68719476736)"
  "r64 (- (34226704332986781 / 549755813888)) = - (8556676083246695 / 137438953472)"
  "r64 (- (16212216488185037 / 274877906944)) = - (4053054122046259 / 68719476736)"
  "r64 (- (31523754282582019 / 549755813888)) = - (7880938570645505 / 137438953472)"
  "r64 (- (851929 / 16)) = - (851929 / 16)"
  "r64 (- (196599 / 4)) = - (196599 / 4)"
  "r64 (- (108081443254566909 / 2199023255552)) = - (196599 / 4)"
  "r64 (- (6304750856516403 / 137438953472)) = - (6304750856516403 / 137438953472)"
  "r64 (- (3069397701556895599813 / 72057594037927936)) = - (5854411509622375 / 137438953472)"
  "r64 (- (383674712694611941785 / 9007199254740992)) = - (5854411509622375 / 137438953472)"
  "r64 (- (11708823019244749 / 274877906944)) = - (2927205754811187 / 68719476736)"
  "r64 (- (93670584153957979 / 2199023255552)) = - (2927205754811187 / 68719476736)"
  "r64 (- (180769816558038325657 / 4503599627370496)) = - (5516656999451853 / 137438953472)"
  "r64 (- (354161273256564844135 / 9007199254740992)) = - (5404072162728345 / 137438953472)"
  "r64 (- (2685722988862283330363 / 72057594037927936)) = - (5122610070919577 / 137438953472)"
  "r64 (- (9907730201654067 / 274877906944)) = - (2476932550413517 / 68719476736)"
  by (simp_all add: r64_small [where n = 37] rne_def)

lemma round_m37_1:
  "r64 (- (4953808407258727 / 137438953472)) = - (4953808407258727 / 137438953472)"
  "r64 (- (81163196944526979891 / 2251799813685248)) = - (4953808407258727 / 137438953472)"
  "r64 (- (162323916909258906009 / 4503599627370496)) = - (4953732815834317 / 137438953472)"
  "r64 (- (4958390231420953165815 / 144115188075855872)) = - (4728689414425805 / 137438953472)"
  "r64 (37828505139098417 / 1099511627776) = 2364281571193651 / 68719476736"
  "r64 (81163196944526979891 / 2251799813685248) = 4953808407258727 / 137438953472"
  "r64 (4953808407258727 / 137438953472) = 4953808407258727 / 137438953472"
  "r64 (2359251 / 64) = 2359251 / 64"
  "r64 (6020902423868299542531 / 144115188075855872) = 2870990001615667 / 68719476736"
  "r64 (6192166019792897 / 137438953472) = 6192166019792897 / 137438953472"
  "r64 (786417 / 16) = 786417 / 16"
  "r64 (236107515504376584601 / 4503599627370496) = 7205429550304461 / 137438953472"
  "r64 (851931 / 16) = 851931 / 16"
  "r64 (425971 / 8) = 425971 / 8"
  "r64 (7543184060474983 / 137438953472) = 7543184060474983 / 137438953472"
  "r64 (1913993334410445 / 34359738368) = 1913993334410445 / 34359738368"
  by (simp_all add: r64_small [where n = 37] rne_def)

lemma round_m37_2:
  "r64 (2036481702190748270595 / 36028797018963968) = 7768561180842393 / 137438953472"
  "r64 (1018240851095374266367 / 18014398509481984) = 3884280590421197 / 68719476736"
  "r64 65533 = 65533"
  by (simp_all add: r64_small [where n = 37] rne_def)

lemma round_m36_0:
  "r64 (- (16662555835079067 / 137438953472)) = - (4165638958769767 / 34359738368)"
  "r64 (- (8049815825730765 / 68719476736)) = - (8049815825730765 / 68719476736)"
  "r64 (- (786417 / 8)) = - (786417 / 8)"
  "r64 (- (6079743532833177 / 68719476736)) = - (6079743532833177 / 68719476736)"
  "r64 (- (3069397701556895599813 / 36028797018963968)) = - (5854411509622375 / 68719476736)"
  "r64 (- (327665 / 4)) = - (327665 / 4)"
  "r64 (- (2476932550413517 / 34359738368)) = - (2476932550413517 / 34359738368)"
  "r64 (- (649313006495601000447 / 9007199254740992)) = - (2476932550413517 / 34359738368)"
  "r64 (- (4953808407258727 / 68719476736)) = - (4953808407258727 / 68719476736)"
  "r64 (- (81163196944526979891 / 1125899906842624)) = - (4953808407258727 / 68719476736)"
  "r64 (- (162323916909258906009 / 2251799813685248)) = - (4953732815834317 / 68719476736)"
  "r64 (- (4953732815834317 / 68719476736)) = - (4953732815834317 / 68719476736)"
  "r64 (- (1283868899207211122685 / 18014398509481984)) = - (4897571179226727 / 68719476736)"
  "r64 (- (309891114099494263193 / 4503599627370496)) = - (4728563142387303 / 68719476736)"
  "r64 (4953732815834317 / 68719476736) = 4953732815834317 / 68719476736"
  "r64 (5489646327644626354173 / 72057594037927936) = 2617667354414285 / 34359738368"
  by (simp_all add: r64_small [where n = 36] rne_def)

lemma round_m36_1:
  "r64 98301 = 98301"
  "r64 (196603 / 2) = 196603 / 2"
  "r64 (786417 / 8) = 786417 / 8"
  "r64 (1815124995430884311043 / 18014398509481984) = 6924152356837785 / 68719476736"
  "r64 (2110210919820365778117 / 18014398509481984) = 8049815825730765 / 68719476736"
  "r64 (16099631651461531 / 137438953472) = 4024907912865383 / 34359738368"
  "r64 (2195462942411981 / 17179869184) = 2195462942411981 / 17179869184"
  by (simp_all add: r64_small [where n = 36] rne_def)


text \<open>The two obstacle arrays as the program holds them.\<close>

lemma walls64_eval:
  "walls64 =
     [Line (Point (5854679515581645 / 9007199254740992) (1 / 2)) (Point (3152519739159347 / 4503599627370496) (3602879701896397 / 4503599627370496)),
      Line (Point (3602879701896397 / 18014398509481984) (5404319552844595 / 18014398509481984)) (Point (3602879701896397 / 9007199254740992) (- (3602879701896397 / 18014398509481984))),
      Line (Point (3602879701896397 / 9007199254740992) (- (3602879701896397 / 18014398509481984))) (Point (3602879701896397 / 72057594037927936) (- (5404319552844595 / 18014398509481984))),
      Line (Point (3602879701896397 / 72057594037927936) (- (5404319552844595 / 18014398509481984))) (Point (- (3602879701896397 / 18014398509481984)) (- (3602879701896397 / 36028797018963968))),
      Line (Point (- (3602879701896397 / 18014398509481984)) (- (3602879701896397 / 36028797018963968))) (Point (- (3602879701896397 / 36028797018963968)) (3602879701896397 / 18014398509481984)),
      Line (Point (- (3602879701896397 / 36028797018963968)) (3602879701896397 / 18014398509481984)) (Point (3602879701896397 / 18014398509481984) (5404319552844595 / 18014398509481984)),
      Line (Point (- (1 / 2)) (1 / 2)) (Point (- (5404319552844595 / 18014398509481984)) (5404319552844595 / 18014398509481984)),
      Line (Point (- (5404319552844595 / 18014398509481984)) (1 / 2)) (Point (- (1 / 2)) (5404319552844595 / 18014398509481984)),
      Line (Point (- (1 / 2)) (- (1 / 2))) (Point (- (3602879701896397 / 18014398509481984)) (- (1 / 2)))]"
  by (simp add: walls64_def walls_def literal_def round_m52_0 round_m52_1 round_m53_1 round_m53_2
      round_m54_0 round_m54_1 round_m54_2 round_m55_0 round_m55_2 round_m56_0 round_m57_1)
lemma borders64_eval:
  "borders64 =
     [Line (Point (- (2476979795053773 / 2251799813685248)) (2476979795053773 / 2251799813685248)) (Point (2476979795053773 / 2251799813685248) (2476979795053773 / 2251799813685248)),
      Line (Point (2476979795053773 / 2251799813685248) (2476979795053773 / 2251799813685248)) (Point (2476979795053773 / 2251799813685248) (- (2476979795053773 / 2251799813685248))),
      Line (Point (- (2476979795053773 / 2251799813685248)) (- (2476979795053773 / 2251799813685248))) (Point (2476979795053773 / 2251799813685248) (- (2476979795053773 / 2251799813685248))),
      Line (Point (- (2476979795053773 / 2251799813685248)) (2476979795053773 / 2251799813685248)) (Point (- (2476979795053773 / 2251799813685248)) (- (2476979795053773 / 2251799813685248)))]"
  by (simp add: borders64_def borders_def literal_def round_m52_0 round_m52_1 round_m53_1 round_m53_2
      round_m54_0 round_m54_1 round_m54_2 round_m55_0 round_m55_2 round_m56_0 round_m57_1)
lemma obstacles64:
  "walls64 @ borders64 =
     [Line (Point (5854679515581645 / 9007199254740992) (1 / 2)) (Point (3152519739159347 / 4503599627370496) (3602879701896397 / 4503599627370496)),
      Line (Point (3602879701896397 / 18014398509481984) (5404319552844595 / 18014398509481984)) (Point (3602879701896397 / 9007199254740992) (- (3602879701896397 / 18014398509481984))),
      Line (Point (3602879701896397 / 9007199254740992) (- (3602879701896397 / 18014398509481984))) (Point (3602879701896397 / 72057594037927936) (- (5404319552844595 / 18014398509481984))),
      Line (Point (3602879701896397 / 72057594037927936) (- (5404319552844595 / 18014398509481984))) (Point (- (3602879701896397 / 18014398509481984)) (- (3602879701896397 / 36028797018963968))),
      Line (Point (- (3602879701896397 / 18014398509481984)) (- (3602879701896397 / 36028797018963968))) (Point (- (3602879701896397 / 36028797018963968)) (3602879701896397 / 18014398509481984)),
      Line (Point (- (3602879701896397 / 36028797018963968)) (3602879701896397 / 18014398509481984)) (Point (3602879701896397 / 18014398509481984) (5404319552844595 / 18014398509481984)),
      Line (Point (- (1 / 2)) (1 / 2)) (Point (- (5404319552844595 / 18014398509481984)) (5404319552844595 / 18014398509481984)),
      Line (Point (- (5404319552844595 / 18014398509481984)) (1 / 2)) (Point (- (1 / 2)) (5404319552844595 / 18014398509481984)),
      Line (Point (- (1 / 2)) (- (1 / 2))) (Point (- (3602879701896397 / 18014398509481984)) (- (1 / 2))),
      Line (Point (- (2476979795053773 / 2251799813685248)) (2476979795053773 / 2251799813685248)) (Point (2476979795053773 / 2251799813685248) (2476979795053773 / 2251799813685248)),
      Line (Point (2476979795053773 / 2251799813685248) (2476979795053773 / 2251799813685248)) (Point (2476979795053773 / 2251799813685248) (- (2476979795053773 / 2251799813685248))),
      Line (Point (- (2476979795053773 / 2251799813685248)) (- (2476979795053773 / 2251799813685248))) (Point (2476979795053773 / 2251799813685248) (- (2476979795053773 / 2251799813685248))),
      Line (Point (- (2476979795053773 / 2251799813685248)) (2476979795053773 / 2251799813685248)) (Point (- (2476979795053773 / 2251799813685248)) (- (2476979795053773 / 2251799813685248)))]"
  by (simp add: walls64_eval borders64_eval)

text \<open>The resolver as a fold over the results of the intersection test.\<close>

lemma nearest64_by_fold:
  "findNearestIntersectionPoint64 start =
     fst (foldl (\<lambda>s h. case h of None \<Rightarrow> s
                   | Some q \<Rightarrow> if pointDistance64 (point1 start) q < snd s
                       then (Some q, pointDistance64 (point1 start) q) else s)
            (None, INT64_MAX_double)
            (map (findLineSegmentIntersection64 (expandLine64 start)) (walls64 @ borders64)))"
  by (simp only: findNearestIntersectionPoint64_def findNearest64_one_loop evaluateAll64_foldl)

subsection \<open>From the centre of the screen to the east\<close>






subsection \<open>Through the end of a wall\<close>





subsection \<open>Towards a corner of the border\<close>

text \<open>
  The probe from \<open>(0.5, 0.125)\<close> to \<open>(0.53125, 0.17578125)\<close> and the probe from
  \<open>(0.5, 0.125)\<close> to the corner \<open>(1.1, 1.1)\<close> of the border: for both the slope is
  computed as \<open>1.625\<close> and the extension ends at \<open>(32767, 53245.6875)\<close>. The
  intersection test reports nothing for any obstacle.
\<close>

lemma towards_corner_expand:
  "expandLine64 (Line (Point (1 / 2) (1 / 8)) (Point (17 / 32) (45 / 256))) =
     Line (Point (1 / 2) (1 / 8)) (Point 32767 (851931 / 16))"
  by (simp add: expandLine64_def Let_def ARBITRARY_OUT_OF_BOUNDS_COORD_def fsub_def fmul_def fadd_def
      fquot_def r64_zero round_m37_1 round_m52_2 round_m53_0 round_m53_2 round_m57_0 round_m57_1
      round_m72)
lemma to_corner_expand:
  "expandLine64 (Line (Point (1 / 2) (1 / 8)) (Point (2476979795053773 / 2251799813685248) (2476979795053773 / 2251799813685248))) =
     Line (Point (1 / 2) (1 / 8)) (Point 32767 (851931 / 16))"
  by (simp add: expandLine64_def Let_def ARBITRARY_OUT_OF_BOUNDS_COORD_def fsub_def fmul_def fadd_def
      fquot_def r64_zero round_m37_1 round_m52_2 round_m53_0 round_m53_2 round_m53_3 round_m72)
lemma towards_corner_hits:
  "map (findLineSegmentIntersection64 (Line (Point (1 / 2) (1 / 8)) (Point 32767 (851931 / 16))))
     [Line (Point (5854679515581645 / 9007199254740992) (1 / 2)) (Point (3152519739159347 / 4503599627370496) (3602879701896397 / 4503599627370496)),
      Line (Point (3602879701896397 / 18014398509481984) (5404319552844595 / 18014398509481984)) (Point (3602879701896397 / 9007199254740992) (- (3602879701896397 / 18014398509481984))),
      Line (Point (3602879701896397 / 9007199254740992) (- (3602879701896397 / 18014398509481984))) (Point (3602879701896397 / 72057594037927936) (- (5404319552844595 / 18014398509481984))),
      Line (Point (3602879701896397 / 72057594037927936) (- (5404319552844595 / 18014398509481984))) (Point (- (3602879701896397 / 18014398509481984)) (- (3602879701896397 / 36028797018963968))),
      Line (Point (- (3602879701896397 / 18014398509481984)) (- (3602879701896397 / 36028797018963968))) (Point (- (3602879701896397 / 36028797018963968)) (3602879701896397 / 18014398509481984)),
      Line (Point (- (3602879701896397 / 36028797018963968)) (3602879701896397 / 18014398509481984)) (Point (3602879701896397 / 18014398509481984) (5404319552844595 / 18014398509481984)),
      Line (Point (- (1 / 2)) (1 / 2)) (Point (- (5404319552844595 / 18014398509481984)) (5404319552844595 / 18014398509481984)),
      Line (Point (- (5404319552844595 / 18014398509481984)) (1 / 2)) (Point (- (1 / 2)) (5404319552844595 / 18014398509481984)),
      Line (Point (- (1 / 2)) (- (1 / 2))) (Point (- (3602879701896397 / 18014398509481984)) (- (1 / 2))),
      Line (Point (- (2476979795053773 / 2251799813685248)) (2476979795053773 / 2251799813685248)) (Point (2476979795053773 / 2251799813685248) (2476979795053773 / 2251799813685248)),
      Line (Point (2476979795053773 / 2251799813685248) (2476979795053773 / 2251799813685248)) (Point (2476979795053773 / 2251799813685248) (- (2476979795053773 / 2251799813685248))),
      Line (Point (- (2476979795053773 / 2251799813685248)) (- (2476979795053773 / 2251799813685248))) (Point (2476979795053773 / 2251799813685248) (- (2476979795053773 / 2251799813685248))),
      Line (Point (- (2476979795053773 / 2251799813685248)) (2476979795053773 / 2251799813685248)) (Point (- (2476979795053773 / 2251799813685248)) (- (2476979795053773 / 2251799813685248)))] =
     [None,
      None,
      None,
      None,
      None,
      None,
      None,
      None,
      None,
      None,
      None,
      None,
      None]"
  by (simp add: findLineSegmentIntersection64_def param_t64_def param_u64_def denominator64_def
      pointAt64_def fdiv64_def fsub_def fmul_def fadd_def fquot_def r64_zero round_m107
      round_m36_0 round_m36_1 round_m37_0 round_m37_1 round_m37_2 round_m38_0 round_m38_1
      round_m38_2 round_m39_0 round_m39_1 round_m39_2 round_m40_0 round_m40_1 round_m41
      round_m49 round_m50 round_m51_0 round_m51_1 round_m52_0 round_m52_1 round_m52_2
      round_m53_0 round_m53_1 round_m53_2 round_m54_0 round_m54_1 round_m54_2 round_m54_3
      round_m55_0 round_m55_1 round_m55_2 round_m56_0 round_m56_1 round_m57_0 round_m57_1
      round_m58 round_m59 round_m67 round_m68 round_m69 round_m70 round_m71 round_m90)
lemma towards_corner_all:
  "map (findLineSegmentIntersection64 (expandLine64 (Line (Point (1 / 2) (1 / 8)) (Point (17 / 32) (45 / 256)))))
     (walls64 @ borders64) =
     [None, None, None, None, None, None, None, None, None, None, None, None, None]"
  unfolding towards_corner_expand obstacles64 by (rule towards_corner_hits)

lemma to_corner_all:
  "map (findLineSegmentIntersection64 (expandLine64 (Line (Point (1 / 2) (1 / 8)) (Point (2476979795053773 / 2251799813685248) (2476979795053773 / 2251799813685248)))))
     (walls64 @ borders64) =
     [None, None, None, None, None, None, None, None, None, None, None, None, None]"
  unfolding to_corner_expand obstacles64 by (rule towards_corner_hits)

text \<open>
  C4 fails in the program. The origin \<open>(0.5, 0.125)\<close> lies strictly inside the
  border. The extension of the two probes crosses the north border just left of
  its end \<open>(1.1, 1.1)\<close>: the exact intersection test on the program's doubles gives
  a point. In double arithmetic \<open>u\<close> is computed as \<open>1.0000000000000002\<close> for the north
  border and as \<open>-5.05e-17\<close> for the east border, the intersection test reports
  nothing for any of the nine walls and four borders, and the resolver returns its
  local \<^verbatim>\<open>intersection\<close> as declared, never assigned.
\<close>

theorem no_hit_towards_the_corner:
  "findNearestIntersectionPoint64 (Line (Point (1 / 2) (1 / 8)) (Point (17 / 32) (45 / 256))) = None
   \<and> findNearestIntersectionPoint64 (Line (Point (1 / 2) (1 / 8)) (point2 (borders64 ! 0))) = None
   \<and> map (findLineSegmentIntersection64 (expandLine64 (Line (Point (1 / 2) (1 / 8)) (Point (17 / 32) (45 / 256)))))
         (walls64 @ borders64) =
         [None, None, None, None, None, None, None, None, None, None, None, None, None]
   \<and> findLineSegmentIntersection (expandLine64 (Line (Point (1 / 2) (1 / 8)) (Point (17 / 32) (45 / 256)))) (borders64 ! 0) \<noteq> None"
proof -
  have "findNearestIntersectionPoint64 (Line (Point (1 / 2) (1 / 8)) (Point (17 / 32) (45 / 256))) = None"
    unfolding nearest64_by_fold towards_corner_all by simp
  moreover have "point2 (borders64 ! 0) = point2 (Line (Point (1 / 2) (1 / 8)) (Point (2476979795053773 / 2251799813685248) (2476979795053773 / 2251799813685248)))"
    by (simp add: borders64_eval)
  then have "findNearestIntersectionPoint64 (Line (Point (1 / 2) (1 / 8)) (point2 (borders64 ! 0))) =
      findNearestIntersectionPoint64 (Line (Point (1 / 2) (1 / 8)) (Point (2476979795053773 / 2251799813685248) (2476979795053773 / 2251799813685248)))"
    by simp
  then have "findNearestIntersectionPoint64 (Line (Point (1 / 2) (1 / 8)) (point2 (borders64 ! 0))) = None"
    unfolding nearest64_by_fold to_corner_all by simp
  moreover have "findLineSegmentIntersection (expandLine64 (Line (Point (1 / 2) (1 / 8)) (Point (17 / 32) (45 / 256)))) (borders64 ! 0) \<noteq> None"
    by (simp add: towards_corner_expand borders64_eval evaluate_intersection)
  ultimately show ?thesis
    using towards_corner_all by simp
qed

subsection \<open>Along the line of a wall\<close>




subsection \<open>Nearly parallel and parallel segments\<close>




subsection \<open>A probe pointing up and to the left\<close>

lemma mirrored_probe:
  "literal (Line (Point 0 0) (Point (- (1 / 20)) (1 / 20))) =
     Line (Point 0 0) (Point (- (3602879701896397 / 72057594037927936)) (3602879701896397 / 72057594037927936))"
  by (simp add: literal_def r64_zero round_m57_0 round_m57_1)
lemma mirrored_expand:
  "expandLine64 (Line (Point 0 0) (Point (- (3602879701896397 / 72057594037927936)) (3602879701896397 / 72057594037927936))) =
     Line (Point 0 0) (Point (- 32767) (- 32767))"
  by (simp add: expandLine64_def Let_def ARBITRARY_OUT_OF_BOUNDS_COORD_def fsub_def fmul_def fadd_def
      fquot_def r64_zero round_m38_0 round_m52_0 round_m57_0 round_m57_1 round_m72)
text \<open>
  C3 fails in the program. The probe from \<open>(0, 0)\<close> to \<open>(-0.05, 0.05)\<close>, up and to the
  left, is extended to \<open>(-32767, -32767)\<close>, down and to the left, at a right angle to
  the probe: the dot product of the normalised directions is 0. The x coordinate
  is negated, the y coordinate stays the one computed for \<open>x = 32767\<close>, since the
  last adjustment of the source multiplies it by 1. The result is the same in
  double arithmetic and in exact arithmetic.
\<close>

theorem left_probe_mirrored:
  "expandLine64 (literal (Line (Point 0 0) (Point (- (1 / 20)) (1 / 20)))) =
     Line (Point 0 0) (Point (- 32767) (- 32767))
   \<and> expandLine (Line (Point 0 0) (Point (- (1 / 20)) (1 / 20))) =
     Line (Point 0 0) (Point (- 32767) (- 32767))
   \<and> normalizedDot (Line (Point 0 0) (Point (- (1 / 20)) (1 / 20)))
       (Line (Point 0 0) (Point (- 32767) (- 32767))) = 0"
  unfolding mirrored_probe by (simp add: mirrored_expand evaluate_expand normalizedDot_def dotProduct_def)

end
